theory Spec2Isabelle
  imports Complex_Main "HOL-Library.Sublist"
begin

unbundle bit_operations_syntax

section \<open>Strings of the platform\<close>

text \<open>
  A JavaScript string is a sequence of UTF-16 code units; a code unit is modelled as a
  natural number, so that \<open>length\<close> counts what \<open>String.length\<close> counts and the
  typographic characters of the entity table below are single elements. \<open>js\<close> turns an
  ASCII literal into such a sequence.
\<close>

type_synonym jstring = "nat list"

definition js :: "string \<Rightarrow> jstring" where
  "js s = map of_char s"

text \<open>
  \<open>\s\<close> in a regular expression and \<open>String.prototype.trim\<close> use the same class:
  the WhiteSpace and LineTerminator code points.
\<close>

definition isWhiteSpace :: "nat \<Rightarrow> bool" where
  "isWhiteSpace c \<longleftrightarrow>
     c = 9 \<or> c = 10 \<or> c = 11 \<or> c = 12 \<or> c = 13 \<or> c = 32 \<or> c = 160 \<or> c = 5760 \<or>
     (8192 \<le> c \<and> c \<le> 8202) \<or> c = 8232 \<or> c = 8233 \<or> c = 8239 \<or> c = 8287 \<or>
     c = 12288 \<or> c = 65279"

definition trim :: "jstring \<Rightarrow> jstring" where
  "trim s = rev (dropWhile isWhiteSpace (rev (dropWhile isWhiteSpace s)))"

definition isUpper :: "nat \<Rightarrow> bool" where
  "isUpper c \<longleftrightarrow> 65 \<le> c \<and> c \<le> 90"

definition isLower :: "nat \<Rightarrow> bool" where
  "isLower c \<longleftrightarrow> 97 \<le> c \<and> c \<le> 122"

definition isAlpha :: "nat \<Rightarrow> bool" where
  "isAlpha c \<longleftrightarrow> isUpper c \<or> isLower c"

definition isDigit :: "nat \<Rightarrow> bool" where
  "isDigit c \<longleftrightarrow> 48 \<le> c \<and> c \<le> 57"

definition lowerChar :: "nat \<Rightarrow> nat" where
  "lowerChar c = (if isUpper c then c + 32 else c)"

text \<open>
  \<open>toLowerCase\<close> is applied by the code to host names only, which the URL parser
  serialises in ASCII; on ASCII it maps \<open>A\<close>..\<open>Z\<close> to \<open>a\<close>..\<open>z\<close>.
\<close>

definition toLowerCase :: "jstring \<Rightarrow> jstring" where
  "toLowerCase s = map lowerChar s"

definition startsWith :: "jstring \<Rightarrow> jstring \<Rightarrow> bool" where
  "startsWith s p \<longleftrightarrow> prefix p s"

definition endsWith :: "jstring \<Rightarrow> jstring \<Rightarrow> bool" where
  "endsWith s p \<longleftrightarrow> suffix p s"

text \<open>\<open>String.prototype.includes\<close>: the argument occurs as a contiguous run.\<close>

definition includesStr :: "jstring \<Rightarrow> jstring \<Rightarrow> bool" where
  "includesStr s p \<longleftrightarrow> sublist p s"

section \<open>The platform's URL parser\<close>

text \<open>
  \<open>new URL(s)\<close> follows the WHATWG URL standard. The model covers absolute URLs without
  a base: a scheme, then for the special schemes \<open>http\<close>, \<open>https\<close>, \<open>ftp\<close>, \<open>ws\<close>,
  \<open>wss\<close> any run of slashes and backslashes followed by the authority, and for other
  schemes an authority after \<open>//\<close> or no host at all. \<open>None\<close> stands for the
  \<open>TypeError\<close> of the constructor. Hosts that need percent-decoding, IDNA, IPv4 number
  normalisation or an IPv6 literal, and the \<open>file\<close> scheme, are outside the model and
  also give \<open>None\<close>.
\<close>

record URL =
  protocol :: jstring
  hostname :: jstring
  port :: jstring

definition URL_host :: "URL \<Rightarrow> jstring" where
  "URL_host u = (if port u = [] then hostname u else hostname u @ js '':'' @ port u)"

definition isSchemeChar :: "nat \<Rightarrow> bool" where
  "isSchemeChar c \<longleftrightarrow> isAlpha c \<or> isDigit c \<or> c = 43 \<or> c = 45 \<or> c = 46"

definition isSpecial :: "jstring \<Rightarrow> bool" where
  "isSpecial sch \<longleftrightarrow> sch \<in> set [js ''ftp'', js ''http'', js ''https'', js ''ws'', js ''wss'']"

definition defaultPort :: "jstring \<Rightarrow> nat option" where
  "defaultPort sch =
     (if sch = js ''http'' \<or> sch = js ''ws'' then Some 80
      else if sch = js ''https'' \<or> sch = js ''wss'' then Some 443
      else if sch = js ''ftp'' then Some 21
      else None)"

text \<open>Slash 47, backslash 92, question mark 63, hash 35, at sign 64, colon 58.\<close>

definition endsAuthority :: "bool \<Rightarrow> nat \<Rightarrow> bool" where
  "endsAuthority special c \<longleftrightarrow> c = 47 \<or> c = 63 \<or> c = 35 \<or> (special \<and> c = 92)"

definition forbiddenHostChar :: "nat \<Rightarrow> bool" where
  "forbiddenHostChar c \<longleftrightarrow>
     c \<le> 32 \<or> c = 35 \<or> c = 47 \<or> c = 58 \<or> c = 60 \<or> c = 62 \<or> c = 63 \<or> c = 64 \<or>
     c = 91 \<or> c = 92 \<or> c = 93 \<or> c = 94 \<or> c = 124"

text \<open>
  A host the model serialises as it stands: printable ASCII with no forbidden code
  point and no percent sign.
\<close>

definition plainHost :: "jstring \<Rightarrow> bool" where
  "plainHost h \<longleftrightarrow> (\<forall>c \<in> set h. \<not> forbiddenHostChar c \<and> c \<noteq> 37 \<and> c < 127)"

definition lastLabel :: "jstring \<Rightarrow> jstring" where
  "lastLabel h =
     (let h' = (if h \<noteq> [] \<and> last h = 46 then butlast h else h)
      in rev (takeWhile (\<lambda>c. c \<noteq> 46) (rev h')))"

definition endsInNumber :: "jstring \<Rightarrow> bool" where
  "endsInNumber h \<longleftrightarrow>
     (let l = lastLabel h in
        l \<noteq> [] \<and> (list_all isDigit l \<or> prefix (js ''0x'') (toLowerCase l)))"

fun digitsValue :: "nat \<Rightarrow> jstring \<Rightarrow> nat" where
  "digitsValue acc [] = acc"
| "digitsValue acc (c # cs) = digitsValue (acc * 10 + (c - 48)) cs"

fun showNat :: "nat \<Rightarrow> jstring" where
  "showNat n = (if n < 10 then [48 + n] else showNat (n div 10) @ [48 + n mod 10])"

declare showNat.simps [simp del]

definition parsePort :: "jstring \<Rightarrow> jstring \<Rightarrow> jstring option" where
  "parsePort sch p =
     (if \<not> list_all isDigit p then None
      else if p = [] then Some []
      else let n = digitsValue 0 p in
        if 65535 < n then None
        else if defaultPort sch = Some n then Some []
        else Some (showNat n))"

definition parseHost :: "bool \<Rightarrow> jstring \<Rightarrow> jstring option" where
  "parseHost special h =
     (if \<not> plainHost h then None
      else if special then
        (if h = [] \<or> endsInNumber h then None else Some (toLowerCase h))
      else Some h)"

definition parseAuthority :: "jstring \<Rightarrow> jstring \<Rightarrow> URL option" where
  "parseAuthority sch auth =
     (let special = isSpecial sch;
          hostport = (if 64 \<in> set auth then rev (takeWhile (\<lambda>c. c \<noteq> 64) (rev auth)) else auth);
          h = takeWhile (\<lambda>c. c \<noteq> 58) hostport;
          rest = dropWhile (\<lambda>c. c \<noteq> 58) hostport
      in if 64 \<in> set auth \<and> hostport = [] then None
         else if rest \<noteq> [] \<and> h = [] then None
         else case parseHost special h of
           None \<Rightarrow> None
         | Some hn \<Rightarrow>
             (case parsePort sch (drop 1 rest) of
                None \<Rightarrow> None
              | Some p \<Rightarrow> Some \<lparr>protocol = sch @ js '':'', hostname = hn, port = p\<rparr>))"

definition parseURL :: "jstring \<Rightarrow> URL option" where
  "parseURL s =
     (let s1 = rev (dropWhile (\<lambda>c. c \<le> 32) (rev (dropWhile (\<lambda>c. c \<le> 32) s)));
          s2 = filter (\<lambda>c. c \<noteq> 9 \<and> c \<noteq> 10 \<and> c \<noteq> 13) s1;
          sch = toLowerCase (takeWhile isSchemeChar s2);
          rest = dropWhile isSchemeChar s2
      in if sch = [] \<or> \<not> isAlpha (hd sch) \<or> rest = [] \<or> hd rest \<noteq> 58 then None
         else if sch = js ''file'' then None
         else if isSpecial sch then
           parseAuthority sch
             (takeWhile (\<lambda>c. \<not> endsAuthority True c)
                (dropWhile (\<lambda>c. c = 47 \<or> c = 92) (tl rest)))
         else if prefix (js ''//'') (tl rest) then
           parseAuthority sch (takeWhile (\<lambda>c. \<not> endsAuthority False c) (drop 2 (tl rest)))
         else Some \<lparr>protocol = sch @ js '':'', hostname = [], port = []\<rparr>)"

section \<open>Domain checks of the content extractor\<close>

text \<open>
  \<open>isExactDomain\<close> (extractor.ts): the lower-cased host name of the URL equals the
  domain or ends with a dot followed by the domain; a URL that does not parse gives
  \<open>false\<close>.
\<close>

definition isExactDomain :: "jstring \<Rightarrow> jstring \<Rightarrow> bool" where
  "isExactDomain url domain =
     (case parseURL url of
        None \<Rightarrow> False
      | Some urlObj \<Rightarrow>
          (let hostname = toLowerCase (hostname urlObj)
           in hostname = domain \<or> endsWith hostname (js ''.'' @ domain)))"

text \<open>
  \<open>String.prototype.replace\<close> with a string pattern replaces the first occurrence
  only, and expands the patterns \<open>$$\<close>, \<open>$&\<close>, \<open>$`\<close> and \<open>$'\<close> of the replacement
  (dollar 36, ampersand 38, backtick 96, apostrophe 39); with a string pattern there are
  no captures, so every other use of a dollar sign stands for itself.
\<close>

fun splitFirst :: "jstring \<Rightarrow> jstring \<Rightarrow> (jstring \<times> jstring) option" where
  "splitFirst pat [] = (if pat = [] then Some ([], []) else None)"
| "splitFirst pat (c # cs) =
     (if prefix pat (c # cs) then Some ([], drop (length pat) (c # cs))
      else map_option (\<lambda>(b, a). (c # b, a)) (splitFirst pat cs))"

fun getSubstitution :: "jstring \<Rightarrow> jstring \<Rightarrow> jstring \<Rightarrow> jstring \<Rightarrow> jstring" where
  "getSubstitution m b a (c # d # r) =
     (if c = 36 \<and> d = 36 then 36 # getSubstitution m b a r
      else if c = 36 \<and> d = 38 then m @ getSubstitution m b a r
      else if c = 36 \<and> d = 96 then b @ getSubstitution m b a r
      else if c = 36 \<and> d = 39 then a @ getSubstitution m b a r
      else c # getSubstitution m b a (d # r))"
| "getSubstitution m b a r = r"

definition replaceStr :: "jstring \<Rightarrow> jstring \<Rightarrow> jstring \<Rightarrow> jstring" where
  "replaceStr s pat repl =
     (case splitFirst pat s of
        None \<Rightarrow> s
      | Some (b, a) \<Rightarrow> b @ getSubstitution pat b a repl @ a)"

text \<open>
  \<open>extractDomain\<close> (extractor.ts): the host name with the first \<open>www.\<close> removed, or
  the URL itself when it does not parse.
\<close>

definition extractDomain :: "jstring \<Rightarrow> jstring" where
  "extractDomain url =
     (case parseURL url of
        None \<Rightarrow> url
      | Some u \<Rightarrow> replaceStr (hostname u) (js ''www.'') [])"

section \<open>Text functions of the content extractor\<close>

text \<open>
  \<open>html.replace(/<[^>]*>/g, '')\<close>: a \<open><\<close> (60) with a \<open>>\<close> (62) somewhere after it
  is removed together with everything up to the first such \<open>>\<close>.
\<close>

function stripTags :: "jstring \<Rightarrow> jstring" where
  "stripTags [] = []"
| "stripTags (c # cs) =
     (if c = 60 \<and> 62 \<in> set cs then stripTags (tl (dropWhile (\<lambda>x. x \<noteq> 62) cs))
      else c # stripTags cs)"
  by pat_completeness auto
termination
  by (relation "measure length")
     (auto simp: less_Suc_eq_le intro: le_trans [OF diff_le_self length_dropWhile_le])

text \<open>
  \<open>new RegExp(entity, 'gi')\<close> for an entity name without regular-expression operators:
  every occurrence, letters compared without regard to ASCII case, scanning from the left
  and resuming after each replacement.
\<close>

definition matchesCI :: "jstring \<Rightarrow> jstring \<Rightarrow> bool" where
  "matchesCI pat s \<longleftrightarrow> length pat \<le> length s \<and> map lowerChar (take (length pat) s) = map lowerChar pat"

function replaceAllCI :: "jstring \<Rightarrow> jstring \<Rightarrow> jstring \<Rightarrow> jstring" where
  "replaceAllCI pat repl [] = []"
| "replaceAllCI pat repl (c # cs) =
     (if pat \<noteq> [] \<and> matchesCI pat (c # cs)
      then repl @ replaceAllCI pat repl (drop (length pat) (c # cs))
      else c # replaceAllCI pat repl cs)"
  by pat_completeness auto
termination
  by (relation "measure (\<lambda>(pat, repl, s). length s)") (auto simp: neq_Nil_conv)

text \<open>The entity table of \<open>sanitizeHtml\<close>, in the order the object literal lists it.\<close>

definition htmlEntities :: "(jstring \<times> jstring) list" where
  "htmlEntities =
     [(js ''&amp;'', js ''&''),
      (js ''&lt;'', js ''<''),
      (js ''&gt;'', js ''>''),
      (js ''&quot;'', [34]),
      (js ''&#39;'', [39]),
      (js ''&apos;'', [39]),
      (js ''&nbsp;'', js '' ''),
      (js ''&copy;'', [169]),
      (js ''&reg;'', [174]),
      (js ''&trade;'', [8482]),
      (js ''&hellip;'', js ''...''),
      (js ''&mdash;'', [8212]),
      (js ''&ndash;'', [8211]),
      (js ''&lsquo;'', [8216]),
      (js ''&rsquo;'', [8217]),
      (js ''&ldquo;'', [8220]),
      (js ''&rdquo;'', [8221])]"

definition decodeEntities :: "jstring \<Rightarrow> jstring" where
  "decodeEntities s = foldl (\<lambda>sanitized (entity, replacement). replaceAllCI entity replacement sanitized) s htmlEntities"

text \<open>
  \<open>sanitized.replace(/&#?[a-zA-Z0-9]+;/g, '')\<close>: an ampersand (38), an optional hash
  (35), the longest run of letters and digits, which must not be empty, and a semicolon
  (59).
\<close>

definition isAlnum :: "nat \<Rightarrow> bool" where
  "isAlnum c \<longleftrightarrow> isAlpha c \<or> isDigit c"

definition entityLength :: "jstring \<Rightarrow> nat option" where
  "entityLength s =
     (case s of
        [] \<Rightarrow> None
      | c # cs \<Rightarrow>
          if c \<noteq> 38 then None
          else let h = (if cs \<noteq> [] \<and> hd cs = 35 then 1 else 0);
                   name = takeWhile isAlnum (drop h cs);
                   rest = dropWhile isAlnum (drop h cs)
               in if name \<noteq> [] \<and> rest \<noteq> [] \<and> hd rest = 59
                  then Some (1 + h + length name + 1) else None)"

function removeEntities :: "jstring \<Rightarrow> jstring" where
  "removeEntities [] = []"
| "removeEntities (c # cs) =
     (case entityLength (c # cs) of
        Some n \<Rightarrow> removeEntities (drop (n - 1) cs)
      | None \<Rightarrow> c # removeEntities cs)"
  by pat_completeness auto
termination
  by (relation "measure length") auto

text \<open>\<open>sanitized.replace(/\s+/g, ' ')\<close>: every maximal run of white space becomes one space.\<close>

function collapseWhiteSpace :: "jstring \<Rightarrow> jstring" where
  "collapseWhiteSpace [] = []"
| "collapseWhiteSpace (c # cs) =
     (if isWhiteSpace c then 32 # collapseWhiteSpace (dropWhile isWhiteSpace cs)
      else c # collapseWhiteSpace cs)"
  by pat_completeness auto
termination
  by (relation "measure length") (auto simp: less_Suc_eq_le length_dropWhile_le)

text \<open>\<open>sanitizeHtml\<close> (extractor.ts); the empty string is falsy and returned at once.\<close>

definition sanitizeHtml :: "jstring \<Rightarrow> jstring" where
  "sanitizeHtml html =
     (if html = [] then []
      else trim (collapseWhiteSpace (removeEntities (decodeEntities (stripTags html)))))"

text \<open>
  \<open>text.split(/\s+/)\<close>: the pieces between the maximal runs of white space; the empty
  string gives one empty piece.
\<close>

function splitWhiteSpace :: "jstring \<Rightarrow> jstring \<Rightarrow> jstring list" where
  "splitWhiteSpace cur [] = [cur]"
| "splitWhiteSpace cur (c # cs) =
     (if isWhiteSpace c then cur # splitWhiteSpace [] (dropWhile isWhiteSpace cs)
      else splitWhiteSpace (cur @ [c]) cs)"
  by pat_completeness auto
termination
  by (relation "measure (\<lambda>(cur, s). length s)") (auto simp: less_Suc_eq_le length_dropWhile_le)

text \<open>\<open>countWords\<close> (extractor.ts).\<close>

definition countWords :: "jstring \<Rightarrow> nat" where
  "countWords text = length (splitWhiteSpace [] (trim text))"

text \<open>
  \<open>Math.ceil(wordCount / 200)\<close>: a word count is far below \<open>2^53\<close>, where the
  floating-point quotient and its ceiling are exact.
\<close>

definition readingTimeOf :: "nat \<Rightarrow> nat" where
  "readingTimeOf wordCount = (wordCount + 199) div 200"

section \<open>Image tags in extracted content\<close>

text \<open>
  The regular expression \<open>/<img[^>]+src=["']([^"']+)["'][^>]*>/gi\<close> of
  \<open>processImagesInContent\<close>. After \<open><img\<close> the class \<open>[^>]+\<close> is greedy and gives
  characters back one at a time, so the match uses the last \<open>src=\<close> it can; the source
  group is the longest run without a quote (34, 39) and must be closed by a quote; the
  tag then runs to the next \<open>>\<close>. A match is the whole tag and the source group.
\<close>

definition isQuote :: "nat \<Rightarrow> bool" where
  "isQuote c \<longleftrightarrow> c = 34 \<or> c = 39"

definition matchSrc :: "jstring \<Rightarrow> (jstring \<times> jstring) option" where
  "matchSrc r =
     (if \<not> matchesCI (js ''src='') r then None
      else let r1 = drop 4 r in
        if r1 = [] \<or> \<not> isQuote (hd r1) then None
        else let src = takeWhile (\<lambda>c. \<not> isQuote c) (tl r1);
                 r2 = dropWhile (\<lambda>c. \<not> isQuote c) (tl r1)
             in if src = [] \<or> r2 = [] then None
                else let y = takeWhile (\<lambda>c. c \<noteq> 62) (tl r2);
                         r3 = dropWhile (\<lambda>c. c \<noteq> 62) (tl r2)
                     in if r3 = [] then None
                        else Some (take 4 r @ [hd r1] @ src @ [hd r2] @ y @ [62], src))"

fun matchAttrs :: "jstring \<Rightarrow> (jstring \<times> jstring) option" where
  "matchAttrs [] = None"
| "matchAttrs (c # cs) =
     (if c = 62 then None
      else case matchAttrs cs of
        Some (m, src) \<Rightarrow> Some (c # m, src)
      | None \<Rightarrow>
          (case matchSrc cs of
             Some (m, src) \<Rightarrow> Some (c # m, src)
           | None \<Rightarrow> None))"

definition imgMatchAt :: "jstring \<Rightarrow> (jstring \<times> jstring) option" where
  "imgMatchAt s =
     (if \<not> matchesCI (js ''<img'') s then None
      else case matchAttrs (drop 4 s) of
        Some (m, src) \<Rightarrow> Some (take 4 s @ m, src)
      | None \<Rightarrow> None)"

function imgMatchAll :: "jstring \<Rightarrow> (jstring \<times> jstring) list" where
  "imgMatchAll [] = []"
| "imgMatchAll (c # cs) =
     (case imgMatchAt (c # cs) of
        Some (tag, src) \<Rightarrow> (tag, src) # imgMatchAll (drop (length tag - 1) cs)
      | None \<Rightarrow> imgMatchAll cs)"
  by pat_completeness auto
termination
  by (relation "measure length") auto

section \<open>MD5 of a string\<close>

text \<open>
  \<open>createHash('md5').update(s).digest('hex')\<close>: the string is encoded in UTF-8, a lone
  surrogate as U+FFFD, and the digest is written as 32 lower-case hexadecimal digits.
\<close>

definition utf8_codepoint :: "nat \<Rightarrow> nat list" where
  "utf8_codepoint cp =
     (if cp < 128 then [cp]
      else if cp < 2048 then [192 + cp div 64, 128 + cp mod 64]
      else if cp < 65536 then [224 + cp div 4096, 128 + (cp div 64) mod 64, 128 + cp mod 64]
      else [240 + cp div 262144, 128 + (cp div 4096) mod 64, 128 + (cp div 64) mod 64,
            128 + cp mod 64])"

definition isHighSurrogate :: "nat \<Rightarrow> bool" where
  "isHighSurrogate c \<longleftrightarrow> 55296 \<le> c \<and> c < 56320"

definition isLowSurrogate :: "nat \<Rightarrow> bool" where
  "isLowSurrogate c \<longleftrightarrow> 56320 \<le> c \<and> c < 57344"

fun utf8 :: "jstring \<Rightarrow> nat list" where
  "utf8 [] = []"
| "utf8 [c] =
     (if isHighSurrogate c \<or> isLowSurrogate c then utf8_codepoint 65533 else utf8_codepoint c)"
| "utf8 (c # d # r) =
     (if isHighSurrogate c \<and> isLowSurrogate d
      then utf8_codepoint (65536 + (c - 55296) * 1024 + (d - 56320)) @ utf8 r
      else if isHighSurrogate c \<or> isLowSurrogate c then utf8_codepoint 65533 @ utf8 (d # r)
      else utf8_codepoint c @ utf8 (d # r))"

definition md5_shifts :: "nat list" where
  "md5_shifts =
     [7, 12, 17, 22, 7, 12, 17, 22, 7, 12, 17, 22, 7, 12, 17, 22,
      5, 9, 14, 20, 5, 9, 14, 20, 5, 9, 14, 20, 5, 9, 14, 20,
      4, 11, 16, 23, 4, 11, 16, 23, 4, 11, 16, 23, 4, 11, 16, 23,
      6, 10, 15, 21, 6, 10, 15, 21, 6, 10, 15, 21, 6, 10, 15, 21]"

text \<open>
  A 32-bit word is a natural number below \<open>2^32\<close>; addition wraps around with
  \<open>mod 2^32\<close> written out.
\<close>

definition md5_K :: "nat list" where
  "md5_K =
     [0xd76aa478, 0xe8c7b756, 0x242070db, 0xc1bdceee, 0xf57c0faf, 0x4787c62a, 0xa8304613, 0xfd469501,
      0x698098d8, 0x8b44f7af, 0xffff5bb1, 0x895cd7be, 0x6b901122, 0xfd987193, 0xa679438e, 0x49b40821,
      0xf61e2562, 0xc040b340, 0x265e5a51, 0xe9b6c7aa, 0xd62f105d, 0x02441453, 0xd8a1e681, 0xe7d3fbc8,
      0x21e1cde6, 0xc33707d6, 0xf4d50d87, 0x455a14ed, 0xa9e3e905, 0xfcefa3f8, 0x676f02d9, 0x8d2a4c8a,
      0xfffa3942, 0x8771f681, 0x6d9d6122, 0xfde5380c, 0xa4beea44, 0x4bdecfa9, 0xf6bb4b60, 0xbebfbc70,
      0x289b7ec6, 0xeaa127fa, 0xd4ef3085, 0x04881d05, 0xd9d4d039, 0xe6db99e5, 0x1fa27cf8, 0xc4ac5665,
      0xf4292244, 0x432aff97, 0xab9423a7, 0xfc93a039, 0x655b59c3, 0x8f0ccc92, 0xffeff47d, 0x85845dd1,
      0x6fa87e4f, 0xfe2ce6e0, 0xa3014314, 0x4e0811a1, 0xf7537e82, 0xbd3af235, 0x2ad7d2bb, 0xeb86d391]"

type_synonym md5_state = "nat \<times> nat \<times> nat \<times> nat"

definition md5_init :: md5_state where
  "md5_init = (0x67452301, 0xefcdab89, 0x98badcfe, 0x10325476)"

definition add32 :: "nat \<Rightarrow> nat \<Rightarrow> nat" where
  "add32 x y = (x + y) mod 2 ^ 32"

definition not32 :: "nat \<Rightarrow> nat" where
  "not32 x = x XOR 0xffffffff"

definition rotl32 :: "nat \<Rightarrow> nat \<Rightarrow> nat" where
  "rotl32 s x = (x * 2 ^ s) mod 2 ^ 32 + x div 2 ^ (32 - s)"

fun zeroBytes :: "nat \<Rightarrow> nat list" where
  "zeroBytes n = (if n = 0 then [] else 0 # zeroBytes (n - 1))"

declare zeroBytes.simps [simp del]

fun littleEndian :: "nat \<Rightarrow> nat \<Rightarrow> nat list" where
  "littleEndian k v = (if k = 0 then [] else v mod 256 # littleEndian (k - 1) (v div 256))"

declare littleEndian.simps [simp del]

definition md5_pad :: "nat list \<Rightarrow> nat list" where
  "md5_pad bs =
     bs @ [128] @ zeroBytes ((119 - length bs mod 64) mod 64) @
     littleEndian 8 ((8 * length bs) mod 2 ^ 64)"

fun md5_words :: "nat list \<Rightarrow> nat list" where
  "md5_words (b0 # b1 # b2 # b3 # r) = (b0 + 256 * b1 + 65536 * b2 + 16777216 * b3) # md5_words r"
| "md5_words r = []"

definition md5_f :: "nat \<Rightarrow> nat \<Rightarrow> nat \<Rightarrow> nat \<Rightarrow> nat" where
  "md5_f i b c d =
     (if i < 16 then (b AND c) OR (not32 b AND d)
      else if i < 32 then (d AND b) OR (not32 d AND c)
      else if i < 48 then b XOR c XOR d
      else c XOR (b OR not32 d))"

definition md5_g :: "nat \<Rightarrow> nat" where
  "md5_g i =
     (if i < 16 then i
      else if i < 32 then (5 * i + 1) mod 16
      else if i < 48 then (3 * i + 5) mod 16
      else (7 * i) mod 16)"

fun md5_step :: "nat list \<Rightarrow> md5_state \<Rightarrow> nat \<Rightarrow> md5_state" where
  "md5_step m (a, b, c, d) i =
     (d,
      add32 b (rotl32 (md5_shifts ! i)
        (add32 (add32 (add32 (md5_f i b c d) a) (md5_K ! i)) (m ! md5_g i))),
      b, c)"

function md5_rounds :: "nat list \<Rightarrow> md5_state \<Rightarrow> nat \<Rightarrow> md5_state" where
  "md5_rounds m st i = (if i < 64 then md5_rounds m (md5_step m st i) (i + 1) else st)"
  by pat_completeness auto
termination
  by (relation "measure (\<lambda>(m, st, i). 64 - i)") auto

declare md5_rounds.simps [simp del]

fun md5_add :: "md5_state \<Rightarrow> md5_state \<Rightarrow> md5_state" where
  "md5_add (a0, b0, c0, d0) (a, b, c, d) = (add32 a0 a, add32 b0 b, add32 c0 c, add32 d0 d)"

definition md5_block :: "md5_state \<Rightarrow> nat list \<Rightarrow> md5_state" where
  "md5_block st m = md5_add st (md5_rounds m st 0)"

function md5_blocks :: "md5_state \<Rightarrow> nat list \<Rightarrow> md5_state" where
  "md5_blocks st ws = (if length ws < 16 then st else md5_blocks (md5_block st (take 16 ws)) (drop 16 ws))"
  by pat_completeness auto
termination
  by (relation "measure (\<lambda>(st, ws). length ws)") auto

declare md5_blocks.simps [simp del]

definition hexDigit :: "nat \<Rightarrow> nat" where
  "hexDigit n = (if n < 10 then 48 + n else 87 + n)"

definition hexByte :: "nat \<Rightarrow> jstring" where
  "hexByte b = [hexDigit (b div 16), hexDigit (b mod 16)]"

definition hexWordLE :: "nat \<Rightarrow> jstring" where
  "hexWordLE w = concat (map hexByte (littleEndian 4 w))"

fun md5_digest :: "md5_state \<Rightarrow> jstring" where
  "md5_digest (a, b, c, d) = hexWordLE a @ hexWordLE b @ hexWordLE c @ hexWordLE d"

definition md5hex :: "jstring \<Rightarrow> jstring" where
  "md5hex s = md5_digest (md5_blocks md5_init (md5_words (md5_pad (utf8 s))))"

section \<open>The outside world of the extractor\<close>

text \<open>
  A thrown value is an \<open>Error\<close> with its message, or something that is not an
  \<open>Error\<close> instance.
\<close>

datatype exn = Error jstring | Thrown

record HttpResponse =
  ok :: bool
  status :: nat
  statusText :: jstring
  body :: "exn + nat list"

text \<open>
  A DOM element as the extractor reads it, and a parsed document as the answers of
  \<open>querySelector\<close>.
\<close>

record Element =
  getAttribute :: "jstring \<Rightarrow> jstring option"
  textContent :: jstring

type_synonym Document = "jstring \<Rightarrow> Element option"

text \<open>The result of \<open>Readability.parse\<close>; \<open>None\<close> in a field is \<open>null\<close>.\<close>

record ReadabilityArticle =
  title :: "jstring option"
  byline :: "jstring option"
  excerpt :: "jstring option"
  content :: "jstring option"
  textContent :: "jstring option"

text \<open>
  What the extractor obtains from the network and from its libraries: \<open>node-fetch\<close>
  for pages and images; \<open>JSDOM\<close> followed by \<open>Readability.parse\<close>, which give the
  document as the selector functions below query it (Readability works on the DOM in
  place) and the article or \<open>null\<close>, or throw; the \<open>sharp\<close> pipeline writing a file;
  \<open>new URL(url, base).href\<close>; \<open>new Date(string)\<close> (milliseconds, \<open>None\<close> for an
  invalid date); and the asset directory of the \<open>ContentExtractor\<close> object.
\<close>

record Env =
  fetchPage :: "jstring \<Rightarrow> exn + HttpResponse"
  parsePage :: "jstring \<Rightarrow> jstring option \<Rightarrow> exn + (Document \<times> ReadabilityArticle option)"
  fetchImage :: "jstring \<Rightarrow> exn + HttpResponse"
  sharpToFile :: "nat list \<Rightarrow> jstring \<Rightarrow> bool"
  resolveHref :: "jstring \<Rightarrow> jstring \<Rightarrow> jstring option"
  parseDate :: "jstring \<Rightarrow> int option"
  assetsPath :: jstring

text \<open>A string operand of \<open>||\<close> or of a condition is truthy when it is present and not empty.\<close>

definition truthy :: "jstring option \<Rightarrow> bool" where
  "truthy v \<longleftrightarrow> (case v of None \<Rightarrow> False | Some s \<Rightarrow> s \<noteq> [])"

section \<open>The content extractor\<close>

record ExtractedArticle =
  title :: jstring
  author :: "jstring option"
  content :: jstring
  excerpt :: "jstring option"
  wordCount :: nat
  readingTime :: nat
  publishedAt :: "int option"
  favicon :: "jstring option"
  image :: "jstring option"
  originalHtml :: jstring

text \<open>\<open>resolveUrl\<close> (extractor.ts).\<close>

definition resolveUrl :: "Env \<Rightarrow> jstring \<Rightarrow> jstring option \<Rightarrow> jstring" where
  "resolveUrl env url baseUrl =
     (if startsWith url (js ''http://'') \<or> startsWith url (js ''https://'') then url
      else if truthy baseUrl then
        (case resolveHref env url (the baseUrl) of Some href \<Rightarrow> href | None \<Rightarrow> url)
      else url)"

text \<open>
  \<open>downloadAndOptimizeImage\<close> (extractor.ts): the file name is the MD5 of the URL with
  the extension \<open>.webp\<close>; every failure is caught and gives \<open>undefined\<close>.
\<close>

definition imageFilename :: "jstring \<Rightarrow> jstring" where
  "imageFilename imageUrl = md5hex imageUrl @ js ''.webp''"

definition downloadAndOptimizeImage :: "Env \<Rightarrow> jstring \<Rightarrow> jstring option" where
  "downloadAndOptimizeImage env imageUrl =
     (case fetchImage env imageUrl of
        Inl e \<Rightarrow> None
      | Inr response \<Rightarrow>
          if \<not> ok response then None
          else case body response of
            Inl e \<Rightarrow> None
          | Inr buffer \<Rightarrow>
              (let filename = imageFilename imageUrl;
                   filepath = assetsPath env @ js ''/'' @ filename
               in if sharpToFile env buffer filepath then Some filename else None))"

text \<open>\<open>processImagesInContent\<close> (extractor.ts): the loop over the matches, then the function.\<close>

fun processImages :: "Env \<Rightarrow> jstring option \<Rightarrow> (jstring \<times> jstring) list \<Rightarrow> jstring \<Rightarrow> jstring" where
  "processImages env baseUrl [] processedContent = processedContent"
| "processImages env baseUrl ((fullImgTag, src) # matches) processedContent =
     (case downloadAndOptimizeImage env (resolveUrl env src baseUrl) of
        None \<Rightarrow> processImages env baseUrl matches processedContent
      | Some optimizedPath \<Rightarrow>
          if optimizedPath = [] then processImages env baseUrl matches processedContent
          else processImages env baseUrl matches
                 (replaceStr processedContent fullImgTag
                    (replaceStr fullImgTag src (js ''/assets/'' @ optimizedPath))))"

definition processImagesInContent :: "Env \<Rightarrow> jstring \<Rightarrow> jstring option \<Rightarrow> jstring" where
  "processImagesInContent env contentHtml baseUrl =
     processImages env baseUrl (imgMatchAll contentHtml) contentHtml"

text \<open>
  The selector loops of \<open>extractTitle\<close>, \<open>extractAuthor\<close> and \<open>extractDescription\<close>:
  the first selector whose element has a value that is not blank wins, and the value
  is trimmed.
\<close>

definition contentOrText :: "Element \<Rightarrow> jstring" where
  "contentOrText element =
     (if truthy (getAttribute element (js ''content''))
      then the (getAttribute element (js ''content''))
      else Element.textContent element)"

fun firstText :: "Document \<Rightarrow> jstring list \<Rightarrow> jstring option" where
  "firstText document [] = None"
| "firstText document (selector # selectors) =
     (case document selector of
        None \<Rightarrow> firstText document selectors
      | Some element \<Rightarrow>
          if trim (contentOrText element) \<noteq> [] then Some (trim (contentOrText element))
          else firstText document selectors)"

definition extractTitle :: "Document \<Rightarrow> jstring" where
  \<open>extractTitle document =
     (case firstText document
             [js ''h1'', js ''[property="og:title"]'', js ''[name="twitter:title"]'', js ''title''] of
        Some t \<Rightarrow> t
      | None \<Rightarrow> js ''Untitled Article'')\<close>

definition extractAuthor :: "Document \<Rightarrow> jstring option" where
  \<open>extractAuthor document =
     firstText document
       [js ''[property="article:author"]'', js ''[name="author"]'',
        js ''[property="og:article:author"]'', js ''.author'', js ''.byline'',
        js ''[rel="author"]'']\<close>

fun firstContent :: "Document \<Rightarrow> jstring list \<Rightarrow> jstring option" where
  "firstContent document [] = None"
| "firstContent document (selector # selectors) =
     (case document selector of
        None \<Rightarrow> firstContent document selectors
      | Some element \<Rightarrow>
          (case getAttribute element (js ''content'') of
             None \<Rightarrow> firstContent document selectors
           | Some c \<Rightarrow> if trim c \<noteq> [] then Some (trim c) else firstContent document selectors))"

definition extractDescription :: "Document \<Rightarrow> jstring option" where
  \<open>extractDescription document =
     firstContent document
       [js ''[property="og:description"]'', js ''[name="description"]'',
        js ''[name="twitter:description"]'', js ''[property="description"]'']\<close>

text \<open>\<open>extractExcerpt\<close> (extractor.ts).\<close>

definition extractExcerpt :: "jstring \<Rightarrow> jstring option" where
  "extractExcerpt contentHtml =
     (let plainText = sanitizeHtml contentHtml
      in if 200 < length plainText then Some (take 200 plainText @ js ''...'')
         else if plainText \<noteq> [] then Some plainText else None)"

text \<open>\<open>extractPublishedDate\<close> (extractor.ts).\<close>

definition dateString :: "Element \<Rightarrow> jstring" where
  "dateString element =
     (if truthy (getAttribute element (js ''content'')) then the (getAttribute element (js ''content''))
      else if truthy (getAttribute element (js ''datetime'')) then the (getAttribute element (js ''datetime''))
      else Element.textContent element)"

fun firstDate :: "Env \<Rightarrow> Document \<Rightarrow> jstring list \<Rightarrow> int option" where
  "firstDate env document [] = None"
| "firstDate env document (selector # selectors) =
     (case document selector of
        None \<Rightarrow> firstDate env document selectors
      | Some element \<Rightarrow>
          if dateString element = [] then firstDate env document selectors
          else case parseDate env (trim (dateString element)) of
            Some date \<Rightarrow> Some date
          | None \<Rightarrow> firstDate env document selectors)"

definition extractPublishedDate :: "Env \<Rightarrow> Document \<Rightarrow> int option" where
  \<open>extractPublishedDate env document =
     firstDate env document
       [js ''[property="article:published_time"]'', js ''[property="og:article:published_time"]'',
        js ''[name="pubdate"]'', js ''time[datetime]'', js ''.published'', js ''.date'']\<close>

text \<open>\<open>extractFavicon\<close> (extractor.ts).\<close>

fun firstHref :: "Document \<Rightarrow> jstring list \<Rightarrow> jstring option" where
  "firstHref document [] = None"
| "firstHref document (selector # selectors) =
     (case document selector of
        None \<Rightarrow> firstHref document selectors
      | Some element \<Rightarrow>
          if truthy (getAttribute element (js ''href'')) then getAttribute element (js ''href'')
          else firstHref document selectors)"

definition extractFavicon :: "Env \<Rightarrow> Document \<Rightarrow> jstring option \<Rightarrow> jstring option" where
  \<open>extractFavicon env document baseUrl =
     (case firstHref document
             [js ''link[rel="icon"]'', js ''link[rel="shortcut icon"]'',
              js ''link[rel="apple-touch-icon"]''] of
        Some href \<Rightarrow> Some (resolveUrl env href baseUrl)
      | None \<Rightarrow>
          if truthy baseUrl then
            (case parseURL (the baseUrl) of
               Some url \<Rightarrow> Some (protocol url @ js ''//'' @ URL_host url @ js ''/favicon.ico'')
             | None \<Rightarrow> None)
          else None)\<close>

text \<open>
  \<open>extractAndOptimizeImage\<close> (extractor.ts): the first selector whose element has a
  source decides; the download never throws, so its result is returned as it is.
\<close>

definition contentOrSrc :: "Element \<Rightarrow> jstring option" where
  "contentOrSrc element =
     (if truthy (getAttribute element (js ''content'')) then getAttribute element (js ''content'')
      else getAttribute element (js ''src''))"

fun firstImage :: "Env \<Rightarrow> Document \<Rightarrow> jstring option \<Rightarrow> jstring list \<Rightarrow> jstring option" where
  "firstImage env document baseUrl [] = None"
| "firstImage env document baseUrl (selector # selectors) =
     (case document selector of
        None \<Rightarrow> firstImage env document baseUrl selectors
      | Some element \<Rightarrow>
          if truthy (contentOrSrc element)
          then downloadAndOptimizeImage env (resolveUrl env (the (contentOrSrc element)) baseUrl)
          else firstImage env document baseUrl selectors)"

definition extractAndOptimizeImage :: "Env \<Rightarrow> Document \<Rightarrow> jstring option \<Rightarrow> jstring option" where
  \<open>extractAndOptimizeImage env document baseUrl =
     firstImage env document baseUrl
       [js ''[property="og:image"]'', js ''[name="twitter:image"]'', js ''article img'',
        js ''.featured-image img'', js ''img'']\<close>

text \<open>\<open>createFallbackContent\<close> (extractor.ts) and its three notes.\<close>

definition youtubeNote :: jstring where
  \<open>youtubeNote = js ''<p class="content-note"><strong>This is a YouTube video.</strong> Visit the link to watch the video.</p>''\<close>

definition socialNote :: jstring where
  \<open>socialNote = js ''<p class="content-note"><strong>This is a social media post.</strong> Visit the link to see the full post and comments.</p>''\<close>

definition genericNote :: jstring where
  \<open>genericNote = js ''<p class="content-note"><strong>Content could not be extracted automatically.</strong> This might be a dynamic page, video, or other media. Visit the link to view the full content.</p>''\<close>

definition contentNote :: "jstring option \<Rightarrow> jstring" where
  "contentNote baseUrl =
     (if truthy baseUrl \<and>
         (isExactDomain (the baseUrl) (js ''youtube.com'') \<or> isExactDomain (the baseUrl) (js ''youtu.be''))
      then youtubeNote
      else if truthy baseUrl \<and>
         (isExactDomain (the baseUrl) (js ''twitter.com'') \<or> isExactDomain (the baseUrl) (js ''x.com''))
      then socialNote
      else genericNote)"

definition createFallbackContent :: "jstring \<Rightarrow> jstring option \<Rightarrow> jstring option \<Rightarrow> jstring" where
  \<open>createFallbackContent titleStr description baseUrl =
     js ''<div class="fallback-content">'' @
     js ''<h1>'' @ titleStr @ js ''</h1>'' @
     (if truthy description then js ''<p class="description">'' @ the description @ js ''</p>'' else []) @
     contentNote baseUrl @
     js ''<p class="source">Source: <a href="'' @
     (case baseUrl of None \<Rightarrow> js ''undefined'' | Some b \<Rightarrow> b) @
     js ''" target="_blank" rel="noopener noreferrer">'' @
     (if truthy baseUrl then extractDomain (the baseUrl) else js ''this page'') @
     js ''</a></p>'' @
     js ''</div>''\<close>

text \<open>
  The four assignments of \<open>extractFromHtml\<close> in its two branches: Readability's value
  where it is truthy, the selector functions or the fallback document otherwise.
\<close>

definition chosenTitle :: "Document \<Rightarrow> ReadabilityArticle option \<Rightarrow> jstring" where
  "chosenTitle document article =
     (case article of
        Some a \<Rightarrow>
          if truthy (ReadabilityArticle.title a) then the (ReadabilityArticle.title a)
          else extractTitle document
      | None \<Rightarrow> extractTitle document)"

definition chosenAuthor :: "Document \<Rightarrow> ReadabilityArticle option \<Rightarrow> jstring option" where
  "chosenAuthor document article =
     (case article of
        Some a \<Rightarrow> if truthy (byline a) then byline a else extractAuthor document
      | None \<Rightarrow> extractAuthor document)"

definition chosenExcerpt :: "Document \<Rightarrow> ReadabilityArticle option \<Rightarrow> jstring option" where
  "chosenExcerpt document article =
     (case article of
        Some a \<Rightarrow>
          if truthy (ReadabilityArticle.excerpt a) then ReadabilityArticle.excerpt a
          else if truthy (ReadabilityArticle.content a)
               then extractExcerpt (the (ReadabilityArticle.content a))
               else None
      | None \<Rightarrow> extractDescription document)"

definition chosenContent :: "Document \<Rightarrow> ReadabilityArticle option \<Rightarrow> jstring option \<Rightarrow> jstring" where
  "chosenContent document article baseUrl =
     (case article of
        Some a \<Rightarrow>
          if truthy (ReadabilityArticle.content a) then the (ReadabilityArticle.content a) else []
      | None \<Rightarrow>
          createFallbackContent (extractTitle document) (extractDescription document) baseUrl)"

text \<open>\<open>article?.textContent || this.sanitizeHtml(content)\<close>, the text that is counted.\<close>

definition countedText :: "ReadabilityArticle option \<Rightarrow> jstring \<Rightarrow> jstring" where
  "countedText article contentHtml =
     (case article of
        Some a \<Rightarrow>
          if truthy (ReadabilityArticle.textContent a) then the (ReadabilityArticle.textContent a)
          else sanitizeHtml contentHtml
      | None \<Rightarrow> sanitizeHtml contentHtml)"

text \<open>\<open>extractFromHtml\<close> (extractor.ts); its \<open>catch\<close> rethrows.\<close>

definition extractFromHtml :: "Env \<Rightarrow> jstring \<Rightarrow> jstring option \<Rightarrow> exn + ExtractedArticle" where
  "extractFromHtml env html baseUrl =
     (case parsePage env html baseUrl of
        Inl e \<Rightarrow> Inl e
      | Inr (document, article) \<Rightarrow>
          Inr \<lparr>ExtractedArticle.title = chosenTitle document article,
               author = chosenAuthor document article,
               content = processImagesInContent env (chosenContent document article baseUrl) baseUrl,
               excerpt = chosenExcerpt document article,
               wordCount = countWords (countedText article (chosenContent document article baseUrl)),
               readingTime =
                 readingTimeOf (countWords (countedText article (chosenContent document article baseUrl))),
               publishedAt = extractPublishedDate env document,
               favicon = extractFavicon env document baseUrl,
               image = extractAndOptimizeImage env document baseUrl,
               originalHtml = html\<rparr>)"

text \<open>\<open>extractFromUrl\<close> (extractor.ts); its \<open>catch\<close> rethrows.\<close>

definition extractFromUrl :: "Env \<Rightarrow> jstring \<Rightarrow> exn + ExtractedArticle" where
  "extractFromUrl env pageUrl =
     (case fetchPage env pageUrl of
        Inl e \<Rightarrow> Inl e
      | Inr response \<Rightarrow>
          if \<not> ok response
          then Inl (Error (js ''Failed to fetch URL: '' @ showNat (status response) @ js '' '' @
                           statusText response))
          else case body response of
            Inl e \<Rightarrow> Inl e
          | Inr html \<Rightarrow> extractFromHtml env html (Some pageUrl))"

section \<open>The article table\<close>

datatype ExtractionStatus = pending | extracting | completed | failed

text \<open>
  The columns of \<open>articles\<close> that the extraction code reads or writes (the migration
  \<open>add_extraction_status\<close>); dates are milliseconds.
\<close>

record Article =
  id :: jstring
  url :: jstring
  userId :: jstring
  title :: jstring
  author :: "jstring option"
  excerpt :: "jstring option"
  content :: "jstring option"
  originalHtml :: "jstring option"
  wordCount :: "nat option"
  readingTime :: "nat option"
  publishedAt :: "int option"
  favicon :: "jstring option"
  image :: "jstring option"
  extractionStatus :: ExtractionStatus
  extractionError :: "jstring option"
  updatedAt :: int

text \<open>
  The database: the rows of the table, and a log that records for every successful
  update the article and the status the update left it with. The log is what a client
  polling the extraction status can observe over time; no code reads it.
\<close>

record Database =
  articles :: "Article list"
  statusLog :: "(jstring \<times> ExtractionStatus) list"

text \<open>
  Prisma's \<open>findUnique\<close>, \<open>findMany\<close> and \<open>update\<close> on the primary key; \<open>update\<close>
  throws when no row has the key.
\<close>

definition findUnique :: "Database \<Rightarrow> jstring \<Rightarrow> Article option" where
  "findUnique db articleId = find (\<lambda>a. Article.id a = articleId) (articles db)"


definition recordNotFound :: exn where
  "recordNotFound = Error (js ''Record to update not found.'')"

definition update :: "Database \<Rightarrow> jstring \<Rightarrow> (Article \<Rightarrow> Article) \<Rightarrow> exn + Database" where
  "update db articleId data =
     (case findUnique db articleId of
        None \<Rightarrow> Inl recordNotFound
      | Some a \<Rightarrow>
          Inr \<lparr>articles = map (\<lambda>r. if Article.id r = articleId then data r else r) (articles db),
               statusLog = statusLog db @ [(articleId, extractionStatus (data a))]\<rparr>)"

section \<open>The extraction worker (queue.ts)\<close>

record ArticleExtractionJobData =
  articleId :: jstring
  url :: jstring
  userId :: jstring

record JobData =
  jobType :: jstring
  jobData :: ArticleExtractionJobData

text \<open>
  The \<open>data\<close> arguments of the three updates of \<open>processArticleExtraction\<close>. A field
  given as \<open>undefined\<close> is left as it is by Prisma; \<open>null\<close> clears it.
\<close>

definition extractingData :: "int \<Rightarrow> Article \<Rightarrow> Article" where
  "extractingData now a =
     a\<lparr>extractionStatus := extracting, extractionError := None, updatedAt := now\<rparr>"

definition keep :: "'a option \<Rightarrow> 'a option \<Rightarrow> 'a option" where
  "keep new old = (case new of None \<Rightarrow> old | Some v \<Rightarrow> Some v)"

definition completedData :: "ExtractedArticle \<Rightarrow> int \<Rightarrow> Article \<Rightarrow> Article" where
  "completedData extracted now a =
     a\<lparr>Article.title := ExtractedArticle.title extracted,
       Article.author := keep (ExtractedArticle.author extracted) (Article.author a),
       Article.content := Some (ExtractedArticle.content extracted),
       Article.excerpt := keep (ExtractedArticle.excerpt extracted) (Article.excerpt a),
       Article.wordCount := Some (ExtractedArticle.wordCount extracted),
       Article.readingTime := Some (ExtractedArticle.readingTime extracted),
       Article.publishedAt := keep (ExtractedArticle.publishedAt extracted) (Article.publishedAt a),
       Article.favicon := keep (ExtractedArticle.favicon extracted) (Article.favicon a),
       Article.image := keep (ExtractedArticle.image extracted) (Article.image a),
       Article.originalHtml := Some (ExtractedArticle.originalHtml extracted),
       extractionStatus := completed,
       extractionError := None,
       updatedAt := now\<rparr>"

definition errorMessage :: "exn \<Rightarrow> jstring" where
  "errorMessage e = (case e of Error message \<Rightarrow> message | Thrown \<Rightarrow> js ''Unknown error'')"

definition failedContent :: "jstring \<Rightarrow> jstring \<Rightarrow> jstring" where
  "failedContent pageUrl message =
     js ''<p>Failed to extract content from URL: '' @ pageUrl @ js ''</p><p>Error: '' @ message @
     js ''</p>''"

definition failedData :: "jstring \<Rightarrow> jstring \<Rightarrow> int \<Rightarrow> Article \<Rightarrow> Article" where
  "failedData pageUrl message now a =
     a\<lparr>Article.title := js ''Failed to extract'',
       Article.content := Some (failedContent pageUrl message),
       extractionStatus := failed,
       extractionError := Some message,
       updatedAt := now\<rparr>"

text \<open>
  The \<open>catch\<close> block of \<open>processArticleExtraction\<close>: the failure is written to the
  article and the error is thrown again; when that update throws, its error leaves the
  function instead.
\<close>

definition catchExtraction ::
  "int \<Rightarrow> ArticleExtractionJobData \<Rightarrow> exn \<Rightarrow> Database \<Rightarrow> (exn + unit) \<times> Database" where
  "catchExtraction now d e db =
     (case update db (articleId d) (failedData (ArticleExtractionJobData.url d) (errorMessage e) now) of
        Inl e' \<Rightarrow> (Inl e', db)
      | Inr db' \<Rightarrow> (Inl e, db'))"

text \<open>
  \<open>processArticleExtraction\<close> (queue.ts); \<open>t0\<close> and \<open>t1\<close> are the clock when the job
  starts and when its outcome is written.
\<close>

definition processArticleExtraction ::
  "Env \<Rightarrow> int \<Rightarrow> int \<Rightarrow> ArticleExtractionJobData \<Rightarrow> Database \<Rightarrow> (exn + unit) \<times> Database" where
  "processArticleExtraction env t0 t1 d db =
     (case update db (articleId d) (extractingData t0) of
        Inl e \<Rightarrow> catchExtraction t1 d e db
      | Inr db1 \<Rightarrow>
          (case extractFromUrl env (ArticleExtractionJobData.url d) of
             Inl e \<Rightarrow> catchExtraction t1 d e db1
           | Inr extracted \<Rightarrow>
               (case update db1 (articleId d) (completedData extracted t1) of
                  Inl e \<Rightarrow> catchExtraction t1 d e db1
                | Inr db2 \<Rightarrow> (Inr (), db2))))"

text \<open>
  The function that \<open>setupQueue\<close> gives to the queue: what it passes to the callback
  \<open>cb\<close>, an error or the result \<open>completed\<close>.
\<close>

definition worker :: "Env \<Rightarrow> int \<Rightarrow> int \<Rightarrow> JobData \<Rightarrow> Database \<Rightarrow> (exn + jstring) \<times> Database" where
  "worker env t0 t1 job db =
     (if jobType job = js ''extract-article'' then
        (case processArticleExtraction env t0 t1 (jobData job) db of
           (Inl e, db') \<Rightarrow> (Inl e, db')
         | (Inr u, db') \<Rightarrow> (Inr (js ''completed''), db'))
      else (Inl (Error (js ''Unknown job type: '' @ jobType job)), db))"

text \<open>The options that \<open>setupQueue\<close> passes to the queue.\<close>

record QueueOptions =
  concurrent :: nat
  maxRetries :: nat
  retryDelay :: nat

definition queueOptions :: QueueOptions where
  "queueOptions = \<lparr>concurrent = 2, maxRetries = 3, retryDelay = 5000\<rparr>"

section \<open>Enqueueing, retry and the reaper (queue.ts)\<close>

text \<open>
  The module state: the database behind \<open>prisma\<close> and the queue, \<open>None\<close> before \<open>setupQueue\<close>
  has run and otherwise the jobs pushed so far, oldest first.
\<close>

record System =
  prisma :: Database
  queue :: "JobData list option"

datatype 'a promise = Resolved 'a | Rejected exn

text \<open>
  \<open>addJob\<close> (queue.ts). The promise is settled by the callback given to \<open>queue.push\<close>;
  \<open>cbError\<close> is the error argument the queue calls it with, \<open>None\<close> for \<open>null\<close>.
\<close>

definition addJob :: "exn option \<Rightarrow> JobData \<Rightarrow> System \<Rightarrow> unit promise \<times> System" where
  "addJob cbError job sys =
     (case queue sys of
        None \<Rightarrow> (Rejected (Error (js ''Queue not initialized'')), sys)
      | Some q \<Rightarrow>
          ((case cbError of Some error \<Rightarrow> Rejected error | None \<Rightarrow> Resolved ()),
           sys\<lparr>queue := Some (q @ [job])\<rparr>))"

text \<open>\<open>retryExtractionJob\<close> (queue.ts) and the job it builds from the article it read.\<close>

definition retryJob :: "Article \<Rightarrow> JobData" where
  "retryJob article =
     \<lparr>jobType = js ''extract-article'',
      jobData = \<lparr>articleId = Article.id article, url = Article.url article,
                 userId = Article.userId article\<rparr>\<rparr>"

definition retryExtractionJob :: "exn option \<Rightarrow> jstring \<Rightarrow> System \<Rightarrow> unit promise \<times> System" where
  "retryExtractionJob cbError aid sys =
     (case findUnique (prisma sys) aid of
        None \<Rightarrow> (Rejected (Error (js ''Article not found'')), sys)
      | Some article \<Rightarrow> addJob cbError (retryJob article) sys)"

text \<open>
  \<open>cleanupStuckExtractions\<close> (queue.ts): \<open>now\<close> is \<open>Date.now()\<close>, \<open>stamp\<close> the clock at
  the update of each article, \<open>cbError\<close> what the queue answers to each push. An error in
  the body of the loop is caught and the loop goes on.
\<close>

definition isStuck :: "int \<Rightarrow> Article \<Rightarrow> bool" where
  "isStuck now a \<longleftrightarrow> extractionStatus a = extracting \<and> updatedAt a < now - 10 * 60 * 1000"

definition timeoutData :: "int \<Rightarrow> Article \<Rightarrow> Article" where
  "timeoutData now a =
     a\<lparr>extractionStatus := failed,
       extractionError := Some (js ''Extraction timeout - job was stuck''),
       updatedAt := now\<rparr>"



section \<open>The retry loop of the job queue\<close>

text \<open>
  Modelled from the spec: the retry loop of the job queue. The queue is the library
  \<open>better-queue\<close>, whose code is not among the sources of the repository;
  \<open>setupQueue\<close> only passes it the worker and the options above. The spec (sections 3
  and 4.1): a job counts its attempts from 0, the count is incremented on each attempt,
  on handler failure the queue re-attempts the same job up to \<open>maxAttempts\<close> with a
  fixed delay between attempts, and the job is discarded on success or after
  \<open>maxAttempts\<close> attempts. \<open>maxAttempts\<close> and the delay are the options \<open>maxRetries\<close>
  and \<open>retryDelay\<close> of \<open>setupQueue\<close>.

  The handler of attempt \<open>k\<close> turns the state into an outcome and a new state. A run
  gives the last outcome (\<open>None\<close> when there was no attempt), the final state and what
  the queue did, in order.
\<close>

datatype QueueEvent = Invoked nat | Waited nat

fun attemptLoop ::
  "nat \<Rightarrow> (nat \<Rightarrow> 's \<Rightarrow> (exn + 'r) \<times> 's) \<Rightarrow> nat \<Rightarrow> nat \<Rightarrow> 's \<Rightarrow>
   (exn + 'r) option \<times> 's \<times> QueueEvent list" where
  "attemptLoop delay handler 0 attempts s = (None, s, [])"
| "attemptLoop delay handler (Suc remaining) attempts s =
     (case handler attempts s of
        (Inr result, s') \<Rightarrow> (Some (Inr result), s', [Invoked attempts])
      | (Inl e, s') \<Rightarrow>
          if remaining = 0 then (Some (Inl e), s', [Invoked attempts])
          else case attemptLoop delay handler remaining (Suc attempts) s' of
            (outcome, s'', events) \<Rightarrow>
              (outcome, s'', Invoked attempts # Waited delay # events))"

definition runJob ::
  "QueueOptions \<Rightarrow> (nat \<Rightarrow> 's \<Rightarrow> (exn + 'r) \<times> 's) \<Rightarrow> 's \<Rightarrow>
   (exn + 'r) option \<times> 's \<times> QueueEvent list" where
  "runJob opts handler s = attemptLoop (retryDelay opts) handler (maxRetries opts) 0 s"

definition invocations :: "QueueEvent list \<Rightarrow> nat" where
  "invocations events = length (filter (\<lambda>ev. case ev of Invoked k \<Rightarrow> True | Waited ms \<Rightarrow> False) events)"

section \<open>Example inputs\<close>



text \<open>
  A world without network in which parsing gives a fixed result; a document without
  elements; a Readability article with a given plain text.
\<close>

definition offlineEnv :: "(exn + (Document \<times> ReadabilityArticle option)) \<Rightarrow> Env" where
  "offlineEnv parsed =
     \<lparr>fetchPage = (\<lambda>u. Inl (Error (js ''network unreachable''))),
      parsePage = (\<lambda>html baseUrl. parsed),
      fetchImage = (\<lambda>u. Inl (Error (js ''network unreachable''))),
      sharpToFile = (\<lambda>buffer path. False),
      resolveHref = (\<lambda>u b. None),
      parseDate = (\<lambda>s. None),
      assetsPath = js ''data/assets''\<rparr>"



text \<open>
  A completed article, the job that extracts it again, and a database holding it.
\<close>

definition sampleArticle :: Article where
  "sampleArticle =
     \<lparr>Article.id = js ''a1'', Article.url = js ''https://example.com/post'',
      Article.userId = js ''u1'', Article.title = js ''A post'',
      Article.author = Some (js ''Ann''), Article.excerpt = Some (js ''Hello world''),
      Article.content = Some (js ''<p>Hello world</p>''),
      Article.originalHtml = Some (js ''<html><body><p>Hello world</p></body></html>''),
      Article.wordCount = Some 2, Article.readingTime = Some 1, Article.publishedAt = None,
      Article.favicon = None, Article.image = None, extractionStatus = completed,
      extractionError = None, updatedAt = 1000\<rparr>"

definition sampleJobData :: ArticleExtractionJobData where
  "sampleJobData = \<lparr>articleId = js ''a1'', url = js ''https://example.com/post'', userId = js ''u1''\<rparr>"

definition sampleDatabase :: Database where
  "sampleDatabase = \<lparr>articles = [sampleArticle], statusLog = []\<rparr>"

definition sampleJob :: JobData where
  "sampleJob = \<lparr>jobType = js ''extract-article'', jobData = sampleJobData\<rparr>"

text \<open>A handler that throws on every execution and counts its executions in the state.\<close>

definition failingHandler :: "nat \<Rightarrow> nat \<Rightarrow> (exn + jstring) \<times> nat" where
  "failingHandler k s = (Inl (Error (js ''boom'')), s + 1)"

text \<open>The network stays unreachable at every attempt.\<close>

definition offlineEnvs :: "nat \<Rightarrow> Env" where
  "offlineEnvs k = offlineEnv (Inl Thrown)"



text \<open>
  The document of a page whose only element of interest is the meta tag \<open>og:title\<close>.
\<close>

definition ogTitleDocument :: "jstring \<Rightarrow> Document" where
  \<open>ogTitleDocument t =
     (\<lambda>selector.
        if selector = js ''[property="og:title"]''
        then Some \<lparr>getAttribute = (\<lambda>name. if name = js ''content'' then Some t else None),
                   Element.textContent = []\<rparr>
        else None)\<close>


section \<open>Domain matching\<close>

lemma suffix_dot_domain:
  assumes "h = p @ d" and "p \<noteq> []" and "last p \<noteq> 46"
  shows "h \<noteq> d \<and> \<not> suffix (46 # d) h"
proof
  show "h \<noteq> d" using assms by simp
  show "\<not> suffix (46 # d) h"
  proof
    assume "suffix (46 # d) h"
    then obtain zs where "p @ d = zs @ 46 # d" using assms(1) by (auto simp: suffix_def)
    then have "p = zs @ [46]" by simp
    then show False using assms(3) by simp
  qed
qed

lemma isExactDomain_iff:
  "isExactDomain u d \<longleftrightarrow>
     (\<exists>urlObj. parseURL u = Some urlObj \<and>
        (toLowerCase (hostname urlObj) = d \<or> (\<exists>sub. toLowerCase (hostname urlObj) = sub @ js ''.'' @ d)))"
  by (auto simp: isExactDomain_def endsWith_def suffix_def Let_def split: option.splits)

lemma isExactDomain_evil: "\<not> isExactDomain (js ''https://evilyoutube.com/x'') (js ''youtube.com'')"
  by code_simp

lemma isExactDomain_mobile: "isExactDomain (js ''https://m.youtube.com/x'') (js ''youtube.com'')"
  by code_simp

text \<open>
  C7. \<open>isExactDomain\<close> matches by equality of the host name with the domain or by a
  proper subdomain suffix only: it is false for \<open>https://evilyoutube.com/x\<close> and true
  for \<open>https://m.youtube.com/x\<close> against \<open>youtube.com\<close>; it holds exactly when the
  lower-cased host name is the domain or something followed by a dot and the domain; and
  a host name that ends with the domain without a dot before it does not match.
\<close>

theorem isExactDomain_exact_or_subdomain:
  "\<not> isExactDomain (js ''https://evilyoutube.com/x'') (js ''youtube.com'') \<and>
   isExactDomain (js ''https://m.youtube.com/x'') (js ''youtube.com'') \<and>
   (\<forall>u d. isExactDomain u d \<longleftrightarrow>
      (\<exists>urlObj. parseURL u = Some urlObj \<and>
         (toLowerCase (hostname urlObj) = d \<or>
          (\<exists>sub. toLowerCase (hostname urlObj) = sub @ js ''.'' @ d)))) \<and>
   (\<forall>u d urlObj p. parseURL u = Some urlObj \<and> toLowerCase (hostname urlObj) = p @ d \<and>
        p \<noteq> [] \<and> last p \<noteq> 46 \<longrightarrow> \<not> isExactDomain u d)"
proof (intro conjI allI impI)
  show "\<not> isExactDomain (js ''https://evilyoutube.com/x'') (js ''youtube.com'')"
    by (rule isExactDomain_evil)
  show "isExactDomain (js ''https://m.youtube.com/x'') (js ''youtube.com'')"
    by (rule isExactDomain_mobile)
next
  fix u d
  show "isExactDomain u d \<longleftrightarrow>
      (\<exists>urlObj. parseURL u = Some urlObj \<and>
         (toLowerCase (hostname urlObj) = d \<or>
          (\<exists>sub. toLowerCase (hostname urlObj) = sub @ js ''.'' @ d)))"
    by (rule isExactDomain_iff)
next
  fix u d urlObj p
  assume h: "parseURL u = Some urlObj \<and> toLowerCase (hostname urlObj) = p @ d \<and> p \<noteq> [] \<and> last p \<noteq> 46"
  then have "toLowerCase (hostname urlObj) \<noteq> d \<and> \<not> suffix (46 # d) (toLowerCase (hostname urlObj))"
    using suffix_dot_domain [of "toLowerCase (hostname urlObj)" p d] by simp
  then show "\<not> isExactDomain u d"
    using h by (simp add: isExactDomain_def endsWith_def js_def Let_def)
qed

theorem isExactDomain_exact_or_subdomain_witness:
  "parseURL (js ''https://notyoutube.com/watch'') = Some \<lparr>protocol = js ''https:'', hostname = js ''notyoutube.com'', port = []\<rparr> \<and>
   toLowerCase (js ''notyoutube.com'') = js ''not'' @ js ''youtube.com'' \<and>
   js ''not'' \<noteq> [] \<and> last (js ''not'') \<noteq> 46 \<and>
   \<not> isExactDomain (js ''https://notyoutube.com/watch'') (js ''youtube.com'')"
proof -
  have p: "parseURL (js ''https://notyoutube.com/watch'') = Some \<lparr>protocol = js ''https:'', hostname = js ''notyoutube.com'', port = []\<rparr>"
    by code_simp
  have l: "toLowerCase (js ''notyoutube.com'') = js ''not'' @ js ''youtube.com''"
    by code_simp
  have n: "js ''not'' \<noteq> [] \<and> last (js ''not'') \<noteq> 46"
    by (simp add: js_def)
  from isExactDomain_exact_or_subdomain
  have "\<forall>u d urlObj p. parseURL u = Some urlObj \<and> toLowerCase (hostname urlObj) = p @ d \<and>
        p \<noteq> [] \<and> last p \<noteq> 46 \<longrightarrow> \<not> isExactDomain u d" by blast
  then have "\<not> isExactDomain (js ''https://notyoutube.com/watch'') (js ''youtube.com'')"
    using p l n by (metis URL.select_convs(2))
  then show ?thesis using p l n by blast
qed

section \<open>Word count and reading time\<close>



















section \<open>The extraction handler\<close>

lemma find_map_same_key:
  assumes "\<And>r. key (g r) = key r"
  shows "find (\<lambda>r. key r = k) (map g xs) = map_option g (find (\<lambda>r. key r = k) xs)"
  using assms by (induction xs) auto

lemma update_found:
  assumes "findUnique db aid = Some a" and "\<And>r. Article.id (f r) = Article.id r"
  shows "\<exists>db'. update db aid f = Inr db' \<and> findUnique db' aid = Some (f a) \<and>
           statusLog db' = statusLog db @ [(aid, extractionStatus (f a))] \<and>
           articles db' = map (\<lambda>r. if Article.id r = aid then f r else r) (articles db)"
proof -
  let ?g = "\<lambda>r. if Article.id r = aid then f r else r"
  have k: "\<And>r. Article.id (?g r) = Article.id r" using assms(2) by simp
  have "find (\<lambda>r. Article.id r = aid) (map ?g (articles db)) = map_option ?g (find (\<lambda>r. Article.id r = aid) (articles db))"
    using find_map_same_key [of Article.id ?g aid "articles db"] k by blast
  moreover have "Article.id a = aid" using assms(1) by (auto simp: findUnique_def find_Some_iff)
  ultimately show ?thesis using assms(1) by (simp add: update_def findUnique_def)
qed

lemma update_missing: "findUnique db aid = None \<Longrightarrow> update db aid f = Inl recordNotFound"
  by (simp add: update_def)

lemma data_keep_id [simp]:
  "Article.id (extractingData t a) = Article.id a"
  "Article.id (completedData x t a) = Article.id a"
  "Article.id (failedData u m t a) = Article.id a"
  "Article.id (timeoutData t a) = Article.id a"
  by (simp_all add: extractingData_def completedData_def failedData_def timeoutData_def)

lemma processArticleExtraction_failure:
  assumes a: "findUnique db (articleId d) = Some a"
    and e: "extractFromUrl env (ArticleExtractionJobData.url d) = Inl e"
  shows "\<exists>db'. processArticleExtraction env t0 t1 d db = (Inl e, db') \<and>
           findUnique db' (articleId d) =
             Some (failedData (ArticleExtractionJobData.url d) (errorMessage e) t1 (extractingData t0 a)) \<and>
           statusLog db' = statusLog db @ [(articleId d, extracting), (articleId d, failed)]"
proof -
  from update_found [OF a, of "extractingData t0"] obtain db1 where
    u1: "update db (articleId d) (extractingData t0) = Inr db1" and
    f1: "findUnique db1 (articleId d) = Some (extractingData t0 a)" and
    l1: "statusLog db1 = statusLog db @ [(articleId d, extractionStatus (extractingData t0 a))]"
    by auto
  from update_found [OF f1, of "failedData (ArticleExtractionJobData.url d) (errorMessage e) t1"] obtain db2 where
    u2: "update db1 (articleId d) (failedData (ArticleExtractionJobData.url d) (errorMessage e) t1) = Inr db2" and
    f2: "findUnique db2 (articleId d) = Some (failedData (ArticleExtractionJobData.url d) (errorMessage e) t1 (extractingData t0 a))" and
    l2: "statusLog db2 = statusLog db1 @ [(articleId d, extractionStatus (failedData (ArticleExtractionJobData.url d) (errorMessage e) t1 (extractingData t0 a)))]"
    by auto
  have "processArticleExtraction env t0 t1 d db = (Inl e, db2)"
    by (simp add: processArticleExtraction_def u1 e catchExtraction_def u2)
  moreover have "statusLog db2 = statusLog db @ [(articleId d, extracting), (articleId d, failed)]"
    using l1 l2 by (simp add: extractingData_def failedData_def)
  ultimately show ?thesis using f2 by simp
qed


lemma includesStr_mid: "includesStr (p @ x @ q) x"
  by (auto simp: includesStr_def sublist_def)

lemma failedContent_includes:
  "includesStr (failedContent u m) u \<and> includesStr (failedContent u m) m"
proof
  show "includesStr (failedContent u m) u"
    unfolding failedContent_def by (rule includesStr_mid)
  have "failedContent u m = (js ''<p>Failed to extract content from URL: '' @ u @ js ''</p><p>Error: '') @ m @ js ''</p>''"
    by (simp add: failedContent_def)
  then show "includesStr (failedContent u m) m"
    using includesStr_mid [of "js ''<p>Failed to extract content from URL: '' @ u @ js ''</p><p>Error: ''" m "js ''</p>''"]
    by simp
qed

lemma offline_extractFromUrl:
  "extractFromUrl (offlineEnv parsed) u = Inl (Error (js ''network unreachable''))"
  by (simp add: extractFromUrl_def offlineEnv_def)

text \<open>
  C4. When the extractor throws in a job for an existing article, the handler leaves the
  article with status \<open>failed\<close>, with \<open>extractionError\<close> equal to the error's message
  (not empty when the message is not), with the title \<open>Failed to extract\<close> and with a
  content that embeds the URL of the job and the error message.
\<close>

theorem failed_extraction_is_visible:
  assumes "findUnique db (articleId d) = Some a"
    and "extractFromUrl env (ArticleExtractionJobData.url d) = Inl e"
    and "errorMessage e \<noteq> []"
  shows "\<exists>db' a' c m. processArticleExtraction env t0 t1 d db = (Inl e, db') \<and>
           findUnique db' (articleId d) = Some a' \<and>
           extractionStatus a' = failed \<and>
           extractionError a' = Some m \<and> m \<noteq> [] \<and> m = errorMessage e \<and>
           Article.title a' = js ''Failed to extract'' \<and>
           Article.content a' = Some c \<and>
           c = js ''<p>Failed to extract content from URL: '' @ ArticleExtractionJobData.url d @
               js ''</p><p>Error: '' @ errorMessage e @ js ''</p>'' \<and>
           includesStr c (ArticleExtractionJobData.url d) \<and> includesStr c (errorMessage e)"
proof -
  let ?a = "failedData (ArticleExtractionJobData.url d) (errorMessage e) t1 (extractingData t0 a)"
  from processArticleExtraction_failure [OF assms(1) assms(2), of t0 t1] obtain db' where
    r: "processArticleExtraction env t0 t1 d db = (Inl e, db')" and
    f: "findUnique db' (articleId d) = Some ?a"
    by blast
  have s: "extractionStatus ?a = failed" "extractionError ?a = Some (errorMessage e)"
    "Article.title ?a = js ''Failed to extract''"
    "Article.content ?a = Some (failedContent (ArticleExtractionJobData.url d) (errorMessage e))"
    by (simp_all add: failedData_def)
  have c: "failedContent (ArticleExtractionJobData.url d) (errorMessage e) =
        js ''<p>Failed to extract content from URL: '' @ ArticleExtractionJobData.url d @
               js ''</p><p>Error: '' @ errorMessage e @ js ''</p>''"
    by (simp add: failedContent_def)
  show ?thesis
    using r f s c assms(3) failedContent_includes [of "ArticleExtractionJobData.url d" "errorMessage e"]
    by (metis (no_types, lifting))
qed

theorem failed_extraction_is_visible_witness:
  "findUnique sampleDatabase (articleId sampleJobData) = Some sampleArticle \<and>
   extractFromUrl (offlineEnv (Inl Thrown)) (ArticleExtractionJobData.url sampleJobData) =
     Inl (Error (js ''network unreachable'')) \<and>
   errorMessage (Error (js ''network unreachable'')) \<noteq> [] \<and>
   (\<exists>db' a' c. processArticleExtraction (offlineEnv (Inl Thrown)) 2000 3000 sampleJobData sampleDatabase =
        (Inl (Error (js ''network unreachable'')), db') \<and>
      findUnique db' (articleId sampleJobData) = Some a' \<and>
      extractionStatus a' = failed \<and>
      extractionError a' = Some (js ''network unreachable'') \<and>
      Article.content a' = Some c \<and>
      includesStr c (js ''https://example.com/post''))"
proof -
  have a: "findUnique sampleDatabase (articleId sampleJobData) = Some sampleArticle"
    by (simp add: findUnique_def sampleDatabase_def sampleJobData_def sampleArticle_def)
  have e: "extractFromUrl (offlineEnv (Inl Thrown)) (ArticleExtractionJobData.url sampleJobData) =
     Inl (Error (js ''network unreachable''))"
    by (rule offline_extractFromUrl)
  have m: "errorMessage (Error (js ''network unreachable'')) \<noteq> []"
    by (simp add: errorMessage_def js_def)
  have u: "ArticleExtractionJobData.url sampleJobData = js ''https://example.com/post''"
    by (simp add: sampleJobData_def)
  have em: "errorMessage (Error (js ''network unreachable'')) = js ''network unreachable''"
    by (simp add: errorMessage_def)
  from failed_extraction_is_visible [OF a e m, of 2000 3000]
  show ?thesis using a e m unfolding u em by blast
qed


lemma processArticleExtraction_success:
  assumes a: "findUnique db (articleId d) = Some a"
    and x: "extractFromUrl env (ArticleExtractionJobData.url d) = Inr extracted"
  shows "\<exists>db'. processArticleExtraction env t0 t1 d db = (Inr (), db') \<and>
           findUnique db' (articleId d) = Some (completedData extracted t1 (extractingData t0 a)) \<and>
           statusLog db' = statusLog db @ [(articleId d, extracting), (articleId d, completed)]"
proof -
  from update_found [OF a, of "extractingData t0"] obtain db1 where
    u1: "update db (articleId d) (extractingData t0) = Inr db1" and
    f1: "findUnique db1 (articleId d) = Some (extractingData t0 a)" and
    l1: "statusLog db1 = statusLog db @ [(articleId d, extractionStatus (extractingData t0 a))]"
    by auto
  from update_found [OF f1, of "completedData extracted t1"] obtain db2 where
    u2: "update db1 (articleId d) (completedData extracted t1) = Inr db2" and
    f2: "findUnique db2 (articleId d) = Some (completedData extracted t1 (extractingData t0 a))" and
    l2: "statusLog db2 = statusLog db1 @ [(articleId d, extractionStatus (completedData extracted t1 (extractingData t0 a)))]"
    by auto
  have "processArticleExtraction env t0 t1 d db = (Inr (), db2)"
    by (simp add: processArticleExtraction_def u1 x u2)
  moreover have "statusLog db2 = statusLog db @ [(articleId d, extracting), (articleId d, completed)]"
    using l1 l2 by (simp add: extractingData_def completedData_def)
  ultimately show ?thesis using f2 by simp
qed

text \<open>
  C1, as amended. A failed run of the handler, a retry included, overwrites \<open>title\<close> and
  \<open>content\<close> with the failure placeholder whatever the status of the article was
  before; the other extracted fields keep their values. \<open>title\<close> and \<open>content\<close> are
  rewritten only by the two final writes of the handler, which find the article in
  status \<open>extracting\<close>; the write that sets \<open>extracting\<close> and the timeout write of the
  reaper leave them as they are.
\<close>

theorem failed_retry_rewrites_title_and_content:
  assumes "findUnique db (articleId d) = Some a"
  shows "\<exists>db' a'. snd (processArticleExtraction env t0 t1 d db) = db' \<and>
           findUnique db' (articleId d) = Some a' \<and>
           extractionStatus (extractingData t0 a) = extracting \<and>
           Article.title (extractingData t0 a) = Article.title a \<and>
           Article.content (extractingData t0 a) = Article.content a \<and>
           Article.title (timeoutData t0 a) = Article.title a \<and>
           Article.content (timeoutData t0 a) = Article.content a \<and>
           (case extractFromUrl env (ArticleExtractionJobData.url d) of
              Inr extracted \<Rightarrow> a' = completedData extracted t1 (extractingData t0 a)
            | Inl e \<Rightarrow>
                a' = failedData (ArticleExtractionJobData.url d) (errorMessage e) t1 (extractingData t0 a) \<and>
                Article.title a' = js ''Failed to extract'' \<and>
                Article.content a' =
                  Some (failedContent (ArticleExtractionJobData.url d) (errorMessage e)) \<and>
                Article.author a' = Article.author a \<and>
                Article.excerpt a' = Article.excerpt a \<and>
                Article.wordCount a' = Article.wordCount a \<and>
                Article.readingTime a' = Article.readingTime a \<and>
                Article.publishedAt a' = Article.publishedAt a \<and>
                Article.favicon a' = Article.favicon a \<and>
                Article.image a' = Article.image a \<and>
                Article.originalHtml a' = Article.originalHtml a)"
proof (cases "extractFromUrl env (ArticleExtractionJobData.url d)")
  case (Inl e)
  from processArticleExtraction_failure [OF assms Inl, of t0 t1] obtain db' where
    "processArticleExtraction env t0 t1 d db = (Inl e, db')" and
    "findUnique db' (articleId d) =
       Some (failedData (ArticleExtractionJobData.url d) (errorMessage e) t1 (extractingData t0 a))"
    by blast
  then show ?thesis
    using Inl by (simp add: failedData_def extractingData_def timeoutData_def)
next
  case (Inr extracted)
  from processArticleExtraction_success [OF assms Inr, of t0 t1] obtain db' where
    "processArticleExtraction env t0 t1 d db = (Inr (), db')" and
    "findUnique db' (articleId d) = Some (completedData extracted t1 (extractingData t0 a))"
    by blast
  then show ?thesis
    using Inr by (simp add: extractingData_def timeoutData_def)
qed

theorem failed_retry_rewrites_title_and_content_witness:
  "findUnique sampleDatabase (articleId sampleJobData) = Some sampleArticle \<and>
   (\<exists>a'. findUnique (snd (processArticleExtraction (offlineEnv (Inl Thrown)) 2000 3000 sampleJobData sampleDatabase))
           (articleId sampleJobData) = Some a' \<and>
         Article.title a' = js ''Failed to extract'' \<and>
         Article.author a' = Article.author sampleArticle \<and>
         Article.wordCount a' = Article.wordCount sampleArticle)"
proof -
  have a: "findUnique sampleDatabase (articleId sampleJobData) = Some sampleArticle"
    by (simp add: findUnique_def sampleDatabase_def sampleJobData_def sampleArticle_def)
  have e: "extractFromUrl (offlineEnv (Inl Thrown)) (ArticleExtractionJobData.url sampleJobData) =
     Inl (Error (js ''network unreachable''))"
    by (rule offline_extractFromUrl)
  from failed_retry_rewrites_title_and_content [OF a, of "offlineEnv (Inl Thrown)" 2000 3000]
  show ?thesis using a unfolding e by auto
qed

text \<open>
  C1 as stated fails: a completed article is retried, the extractor throws, and the
  title and content of the completed extraction are replaced by the placeholder.
\<close>

theorem failed_retry_clobbers_completed_content:
  "findUnique sampleDatabase (js ''a1'') = Some sampleArticle \<and>
   extractionStatus sampleArticle = completed \<and>
   Article.title sampleArticle = js ''A post'' \<and>
   Article.content sampleArticle = Some (js ''<p>Hello world</p>'') \<and>
   retryExtractionJob None (js ''a1'') \<lparr>prisma = sampleDatabase, queue = Some []\<rparr> =
     (Resolved (), \<lparr>prisma = sampleDatabase, queue = Some [sampleJob]\<rparr>) \<and>
   fst (worker (offlineEnv (Inl Thrown)) 2000 3000 sampleJob sampleDatabase) =
     Inl (Error (js ''network unreachable'')) \<and>
   map_option Article.title
     (findUnique (snd (worker (offlineEnv (Inl Thrown)) 2000 3000 sampleJob sampleDatabase)) (js ''a1'')) =
     Some (js ''Failed to extract'') \<and>
   map_option Article.content
     (findUnique (snd (worker (offlineEnv (Inl Thrown)) 2000 3000 sampleJob sampleDatabase)) (js ''a1'')) =
     Some (Some (js ''<p>Failed to extract content from URL: https://example.com/post</p><p>Error: network unreachable</p>'')) \<and>
   js ''<p>Failed to extract content from URL: https://example.com/post</p><p>Error: network unreachable</p>'' \<noteq>
     js ''<p>Hello world</p>''"
proof -
  have a: "findUnique sampleDatabase (js ''a1'') = Some sampleArticle"
    by (simp add: findUnique_def sampleDatabase_def sampleArticle_def)
  have r: "retryExtractionJob None (js ''a1'') \<lparr>prisma = sampleDatabase, queue = Some []\<rparr> =
     (Resolved (), \<lparr>prisma = sampleDatabase, queue = Some [sampleJob]\<rparr>)"
    by (simp add: retryExtractionJob_def a addJob_def retryJob_def sampleJob_def sampleJobData_def sampleArticle_def)
  have e: "extractFromUrl (offlineEnv (Inl Thrown)) (js ''https://example.com/post'') =
     Inl (Error (js ''network unreachable''))"
    by (rule offline_extractFromUrl)
  have w: "worker (offlineEnv (Inl Thrown)) 2000 3000 sampleJob sampleDatabase =
      (Inl (Error (js ''network unreachable'')),
       \<lparr>articles = [failedData (js ''https://example.com/post'') (js ''network unreachable'') 3000
                      (extractingData 2000 sampleArticle)],
        statusLog = [(js ''a1'', extracting), (js ''a1'', failed)]\<rparr>)"
    by (simp add: worker_def sampleJob_def sampleJobData_def processArticleExtraction_def update_def
        findUnique_def sampleDatabase_def e catchExtraction_def errorMessage_def
        extractingData_def failedData_def sampleArticle_def)
  have c: "failedContent (js ''https://example.com/post'') (js ''network unreachable'') =
     js ''<p>Failed to extract content from URL: https://example.com/post</p><p>Error: network unreachable</p>''"
    by (simp add: failedContent_def js_def)
  have n: "js ''<p>Failed to extract content from URL: https://example.com/post</p><p>Error: network unreachable</p>'' \<noteq>
     js ''<p>Hello world</p>''"
    by (simp add: js_def)
  show ?thesis
    using a r n by (simp add: w findUnique_def failedData_def extractingData_def c sampleArticle_def)
qed

section \<open>Enqueueing\<close>

text \<open>
  C2, as amended. \<open>addJob\<close> rejects with \<open>Queue not initialized\<close> and pushes nothing
  when the queue has not been set up. Otherwise it pushes the job, and its promise is
  settled by the callback it gave to \<open>queue.push\<close>: resolved when the queue calls the
  callback without an error, rejected with the queue's error when it calls it with one.
\<close>

theorem addJob_settled_by_push_callback:
  "(\<forall>cbError job sys. queue sys = None \<longrightarrow>
      addJob cbError job sys = (Rejected (Error (js ''Queue not initialized'')), sys)) \<and>
   (\<forall>cbError job sys q. queue sys = Some q \<longrightarrow>
      snd (addJob cbError job sys) = sys\<lparr>queue := Some (q @ [job])\<rparr> \<and>
      (cbError = None \<longrightarrow> fst (addJob cbError job sys) = Resolved ()) \<and>
      (\<forall>error. cbError = Some error \<longrightarrow> fst (addJob cbError job sys) = Rejected error))"
  by (simp add: addJob_def)

theorem addJob_settled_by_push_callback_witness:
  "queue \<lparr>prisma = sampleDatabase, queue = None\<rparr> = None \<and>
   addJob None sampleJob \<lparr>prisma = sampleDatabase, queue = None\<rparr> =
     (Rejected (Error (js ''Queue not initialized'')), \<lparr>prisma = sampleDatabase, queue = None\<rparr>) \<and>
   queue \<lparr>prisma = sampleDatabase, queue = Some []\<rparr> = Some [] \<and>
   addJob None sampleJob \<lparr>prisma = sampleDatabase, queue = Some []\<rparr> =
     (Resolved (), \<lparr>prisma = sampleDatabase, queue = Some [sampleJob]\<rparr>)"
proof -
  have n: "queue \<lparr>prisma = sampleDatabase, queue = None\<rparr> = None" by simp
  have s: "queue \<lparr>prisma = sampleDatabase, queue = Some []\<rparr> = Some []" by simp
  from addJob_settled_by_push_callback n
  have a: "addJob None sampleJob \<lparr>prisma = sampleDatabase, queue = None\<rparr> =
     (Rejected (Error (js ''Queue not initialized'')), \<lparr>prisma = sampleDatabase, queue = None\<rparr>)"
    by blast
  from addJob_settled_by_push_callback s
  have "snd (addJob None sampleJob \<lparr>prisma = sampleDatabase, queue = Some []\<rparr>) =
          \<lparr>prisma = sampleDatabase, queue = Some []\<rparr>\<lparr>queue := Some ([] @ [sampleJob])\<rparr> \<and>
        fst (addJob None sampleJob \<lparr>prisma = sampleDatabase, queue = Some []\<rparr>) = Resolved ()"
    by blast
  then have b: "addJob None sampleJob \<lparr>prisma = sampleDatabase, queue = Some []\<rparr> =
     (Resolved (), \<lparr>prisma = sampleDatabase, queue = Some [sampleJob]\<rparr>)"
    by (simp add: prod_eq_iff)
  show ?thesis using n s a b by simp
qed

text \<open>
  C2 as stated fails: with the queue initialised, the promise is rejected when the queue
  reports an error to the callback of \<open>push\<close>.
\<close>

theorem addJob_rejects_with_initialized_queue:
  "queue \<lparr>prisma = sampleDatabase, queue = Some []\<rparr> = Some [] \<and>
   addJob (Some (Error (js ''network unreachable''))) sampleJob \<lparr>prisma = sampleDatabase, queue = Some []\<rparr> =
     (Rejected (Error (js ''network unreachable'')), \<lparr>prisma = sampleDatabase, queue = Some [sampleJob]\<rparr>)"
  by (simp add: addJob_def)

section \<open>Retries of the queue\<close>

text \<open>
  C3. Under the options of \<open>setupQueue\<close> (3 attempts, 5000 ms), a job whose handler
  throws on every execution is run exactly 3 times, with a wait of 5000 ms between
  successive runs, and is then dropped with the last error.
\<close>

theorem always_failing_handler_runs_three_times:
  assumes "\<forall>k s. \<exists>e s'. handler k s = (Inl e, s')"
  shows "\<exists>e s'. runJob queueOptions handler s =
           (Some (Inl e), s', [Invoked 0, Waited 5000, Invoked 1, Waited 5000, Invoked 2]) \<and>
         invocations [Invoked 0, Waited 5000, Invoked 1, Waited 5000, Invoked 2] = 3 \<and>
         maxRetries queueOptions = 3 \<and> retryDelay queueOptions = 5000"
proof -
  obtain e0 s0 where h0: "handler 0 s = (Inl e0, s0)" using assms by blast
  obtain e1 s1 where h1: "handler (Suc 0) s0 = (Inl e1, s1)" using assms by blast
  obtain e2 s2 where h2: "handler (Suc (Suc 0)) s1 = (Inl e2, s2)" using assms by blast
  have three: "(3::nat) = Suc (Suc (Suc 0))" by simp
  have "runJob queueOptions handler s =
          (Some (Inl e2), s2, [Invoked 0, Waited 5000, Invoked 1, Waited 5000, Invoked 2])"
    by (simp add: runJob_def queueOptions_def three h0 h1 h2 del: One_nat_def)
  then show ?thesis by (simp add: invocations_def queueOptions_def)
qed

theorem always_failing_handler_runs_three_times_witness:
  "(\<exists>e s'. runJob queueOptions failingHandler 0 =
           (Some (Inl e), s', [Invoked 0, Waited 5000, Invoked 1, Waited 5000, Invoked 2])) \<and>
   snd (snd (runJob queueOptions failingHandler 0)) =
     [Invoked 0, Waited 5000, Invoked 1, Waited 5000, Invoked 2] \<and>
   fst (snd (runJob queueOptions failingHandler 0)) = 3"
proof -
  have f: "\<forall>k s. \<exists>e s'. failingHandler k s = (Inl e, s')" by (simp add: failingHandler_def)
  from always_failing_handler_runs_three_times [OF f, of 0] obtain e s' where
    r: "runJob queueOptions failingHandler 0 =
           (Some (Inl e), s', [Invoked 0, Waited 5000, Invoked 1, Waited 5000, Invoked 2])"
    by blast
  have "fst (snd (runJob queueOptions failingHandler 0)) = 3"
    by (simp add: runJob_def queueOptions_def failingHandler_def eval_nat_numeral)
  then show ?thesis using r by auto
qed

lemma processArticleExtraction_existing:
  assumes a: "findUnique db (articleId d) = Some a"
  shows "\<exists>res db' st a'. processArticleExtraction env t0 t1 d db = (res, db') \<and>
           statusLog db' = statusLog db @ [(articleId d, extracting), (articleId d, st)] \<and>
           findUnique db' (articleId d) = Some a' \<and>
           (\<forall>e. extractFromUrl env (ArticleExtractionJobData.url d) = Inl e \<longrightarrow> res = Inl e \<and> st = failed) \<and>
           (\<forall>x. extractFromUrl env (ArticleExtractionJobData.url d) = Inr x \<longrightarrow> res = Inr () \<and> st = completed)"
proof (cases "extractFromUrl env (ArticleExtractionJobData.url d)")
  case (Inl e)
  from processArticleExtraction_failure [OF a Inl, of t0 t1] show ?thesis using Inl by auto
next
  case (Inr x)
  from processArticleExtraction_success [OF a Inr, of t0 t1] show ?thesis using Inr by auto
qed

lemma worker_existing:
  assumes a: "findUnique db (articleId (jobData job)) = Some a"
    and j: "jobType job = js ''extract-article''"
  shows "\<exists>res db' st a'. worker env t0 t1 job db = (res, db') \<and>
           statusLog db' = statusLog db @ [(articleId (jobData job), extracting), (articleId (jobData job), st)] \<and>
           findUnique db' (articleId (jobData job)) = Some a' \<and>
           (\<forall>e. extractFromUrl env (ArticleExtractionJobData.url (jobData job)) = Inl e \<longrightarrow> res = Inl e \<and> st = failed)"
proof -
  from processArticleExtraction_existing [OF a, of env t0 t1] obtain res db' st a' where
    p: "processArticleExtraction env t0 t1 (jobData job) db = (res, db')" and
    l: "statusLog db' = statusLog db @ [(articleId (jobData job), extracting), (articleId (jobData job), st)]" and
    f: "findUnique db' (articleId (jobData job)) = Some a'" and
    e: "\<forall>e. extractFromUrl env (ArticleExtractionJobData.url (jobData job)) = Inl e \<longrightarrow> res = Inl e \<and> st = failed"
    by blast
  show ?thesis
  proof (cases res)
    case (Inl err)
    then have "worker env t0 t1 job db = (Inl err, db')" by (simp add: worker_def j p)
    then show ?thesis using l f e Inl by auto
  next
    case (Inr u)
    then have "worker env t0 t1 job db = (Inr (js ''completed''), db')" by (simp add: worker_def j p)
    moreover have "\<forall>e. extractFromUrl env (ArticleExtractionJobData.url (jobData job)) \<noteq> Inl e"
      using e Inr by auto
    ultimately show ?thesis using l f by auto
  qed
qed

lemma attemptLoop_worker:
  assumes j: "jobType job = js ''extract-article''"
  shows "findUnique db (articleId (jobData job)) = Some a \<Longrightarrow>
         \<exists>outcome db' events extra.
           attemptLoop delay (\<lambda>k. worker (envs k) (t0 k) (t1 k) job) (Suc n) k db = (outcome, db', events) \<and>
           statusLog db' = statusLog db @ (articleId (jobData job), extracting) # extra \<and>
           hd events = Invoked k \<and> events \<noteq> []"
proof (induction n arbitrary: k db a)
  case 0
  from worker_existing [OF "0.prems" j, of "envs k" "t0 k" "t1 k"] obtain res db' st where
    w: "worker (envs k) (t0 k) (t1 k) job db = (res, db')" and
    l: "statusLog db' = statusLog db @ [(articleId (jobData job), extracting), (articleId (jobData job), st)]"
    by blast
  show ?case using w l by (cases res) auto
next
  case (Suc n)
  from worker_existing [OF Suc.prems j, of "envs k" "t0 k" "t1 k"] obtain res db1 st a1 where
    w: "worker (envs k) (t0 k) (t1 k) job db = (res, db1)" and
    l: "statusLog db1 = statusLog db @ [(articleId (jobData job), extracting), (articleId (jobData job), st)]" and
    f: "findUnique db1 (articleId (jobData job)) = Some a1"
    by blast
  show ?case
  proof (cases res)
    case (Inr v)
    then show ?thesis using w l by auto
  next
    case (Inl e)
    from Suc.IH [OF f, of "Suc k"] obtain outcome db' events extra where
      r: "attemptLoop delay (\<lambda>k. worker (envs k) (t0 k) (t1 k) job) (Suc n) (Suc k) db1 = (outcome, db', events)" and
      l': "statusLog db' = statusLog db1 @ (articleId (jobData job), extracting) # extra"
      by blast
    have "attemptLoop delay (\<lambda>k. worker (envs k) (t0 k) (t1 k) job) (Suc (Suc n)) k db =
            (outcome, db', Invoked k # Waited delay # events)"
      using w Inl r by simp
    then show ?thesis using l l' by auto
  qed
qed

text \<open>
  C10. When the extractor throws in a job for an existing article, the handler writes
  \<open>failed\<close> and gives the same error to the queue; the queue waits and runs the job
  again, and the second run starts by writing \<open>extracting\<close>. The article so goes
  \<open>extracting\<close>, \<open>failed\<close>, \<open>extracting\<close> within one enqueued job, with no call of
  \<open>retryExtractionJob\<close> or of the reaper.
\<close>

theorem failed_job_is_rerun_by_the_queue:
  assumes "findUnique db (articleId (jobData job)) = Some a"
    and "jobType job = js ''extract-article''"
    and "extractFromUrl (envs 0) (ArticleExtractionJobData.url (jobData job)) = Inl e"
  shows "\<exists>db1 outcome db' events rest later.
           worker (envs 0) (t0 0) (t1 0) job db = (Inl e, db1) \<and>
           map_option extractionStatus (findUnique db1 (articleId (jobData job))) = Some failed \<and>
           runJob queueOptions (\<lambda>k. worker (envs k) (t0 k) (t1 k) job) db = (outcome, db', events) \<and>
           events = Invoked 0 # Waited 5000 # Invoked 1 # rest \<and>
           statusLog db' =
             statusLog db @
             [(articleId (jobData job), extracting), (articleId (jobData job), failed),
              (articleId (jobData job), extracting)] @ later"
proof -
  let ?h = "\<lambda>k. worker (envs k) (t0 k) (t1 k) job"
  let ?aid = "articleId (jobData job)"
  let ?a1 = "failedData (ArticleExtractionJobData.url (jobData job)) (errorMessage e) (t1 0) (extractingData (t0 0) a)"
  from processArticleExtraction_failure [OF assms(1) assms(3), of "t0 0" "t1 0"] obtain db1 where
    p: "processArticleExtraction (envs 0) (t0 0) (t1 0) (jobData job) db = (Inl e, db1)" and
    f: "findUnique db1 ?aid = Some ?a1" and
    l: "statusLog db1 = statusLog db @ [(?aid, extracting), (?aid, failed)]"
    by blast
  have w: "worker (envs 0) (t0 0) (t1 0) job db = (Inl e, db1)"
    by (simp add: worker_def assms(2) p)
  have s: "map_option extractionStatus (findUnique db1 ?aid) = Some failed"
    by (simp add: f failedData_def)
  from attemptLoop_worker [OF assms(2) f, of 5000 envs t0 t1 "Suc 0" "Suc 0"] obtain outcome db' events extra where
    r: "attemptLoop 5000 ?h (Suc (Suc 0)) (Suc 0) db1 = (outcome, db', events)" and
    l': "statusLog db' = statusLog db1 @ (?aid, extracting) # extra" and
    h: "hd events = Invoked (Suc 0)" "events \<noteq> []"
    by blast
  have three: "(3::nat) = Suc (Suc (Suc 0))" by simp
  have "runJob queueOptions ?h db = (outcome, db', Invoked 0 # Waited 5000 # events)"
    using w r by (simp add: runJob_def queueOptions_def three del: One_nat_def)
  moreover have "events = Invoked 1 # tl events" using h by (cases events) auto
  moreover have "statusLog db' = statusLog db @ [(?aid, extracting), (?aid, failed), (?aid, extracting)] @ extra"
    using l l' by simp
  ultimately show ?thesis using w s by (metis (no_types, lifting))
qed

theorem failed_job_is_rerun_by_the_queue_witness:
  "findUnique sampleDatabase (articleId (jobData sampleJob)) = Some sampleArticle \<and>
   jobType sampleJob = js ''extract-article'' \<and>
   extractFromUrl (offlineEnvs 0) (ArticleExtractionJobData.url (jobData sampleJob)) =
     Inl (Error (js ''network unreachable'')) \<and>
   (\<exists>outcome db' rest later.
      runJob queueOptions (\<lambda>k. worker (offlineEnvs k) (int k * 10000) (int k * 10000 + 900) sampleJob)
        sampleDatabase = (outcome, db', Invoked 0 # Waited 5000 # Invoked 1 # rest) \<and>
      statusLog db' =
        [(js ''a1'', extracting), (js ''a1'', failed), (js ''a1'', extracting)] @ later)"
proof -
  have a: "findUnique sampleDatabase (articleId (jobData sampleJob)) = Some sampleArticle"
    by (simp add: findUnique_def sampleDatabase_def sampleJob_def sampleJobData_def sampleArticle_def)
  have j: "jobType sampleJob = js ''extract-article''" by (simp add: sampleJob_def)
  have e: "extractFromUrl (offlineEnvs 0) (ArticleExtractionJobData.url (jobData sampleJob)) =
     Inl (Error (js ''network unreachable''))"
    unfolding offlineEnvs_def by (rule offline_extractFromUrl)
  have i: "articleId (jobData sampleJob) = js ''a1''" by (simp add: sampleJob_def sampleJobData_def)
  have l: "statusLog sampleDatabase = []" by (simp add: sampleDatabase_def)
  from failed_job_is_rerun_by_the_queue
    [where db = sampleDatabase and job = sampleJob and a = sampleArticle and envs = offlineEnvs
       and e = "Error (js ''network unreachable'')" and ?t0.0 = "\<lambda>k. int k * 10000"
       and ?t1.0 = "\<lambda>k. int k * 10000 + 900"] a j e
  show ?thesis unfolding i l by auto
qed

section \<open>The reaper\<close>



lemma retryJob_timeoutData [simp]: "retryJob (timeoutData t a) = retryJob a"
  by (simp add: retryJob_def timeoutData_def)

lemma map_id_update:
  assumes "\<And>r. Article.id (g r) = Article.id r"
  shows "map Article.id (map g xs) = map Article.id xs"
  using assms by simp



lemma stuck_member_iff:
  "r \<in> set (filter (isStuck now) xs) \<longleftrightarrow> r \<in> set xs \<and> isStuck now r"
  by simp




section \<open>The fallback document\<close>

lemma processImages_no_download:
  "list_all (\<lambda>(tag, src). downloadAndOptimizeImage env (resolveUrl env src baseUrl) = None) ms \<Longrightarrow>
   processImages env baseUrl ms c = c"
  by (induction ms arbitrary: c) auto

lemma processImagesInContent_no_download:
  "list_all (\<lambda>(tag, src). downloadAndOptimizeImage env (resolveUrl env src baseUrl) = None) (imgMatchAll c) \<Longrightarrow>
   processImagesInContent env c baseUrl = c"
  by (simp add: processImagesInContent_def processImages_no_download)

lemma contentNote_youtube:
  "u \<noteq> [] \<Longrightarrow> isExactDomain u (js ''youtube.com'') \<or> isExactDomain u (js ''youtu.be'') \<Longrightarrow>
   contentNote (Some u) = youtubeNote"
  by (auto simp: contentNote_def truthy_def)

lemma createFallbackContent_includes_note:
  "includesStr (createFallbackContent titleStr description baseUrl) (contentNote baseUrl)"
proof -
  obtain p q where "createFallbackContent titleStr description baseUrl = p @ contentNote baseUrl @ q"
    unfolding createFallbackContent_def by (metis append.assoc)
  then show ?thesis using includesStr_mid [of p "contentNote baseUrl" q] by simp
qed

lemma trim_nonempty: "trim t \<noteq> [] \<Longrightarrow> t \<noteq> []"
  by (auto simp: trim_def)

lemma extractTitle_og:
  assumes \<open>document (js ''h1'') = None\<close>
    and \<open>document (js ''[property="og:title"]'') = Some el\<close>
    and \<open>getAttribute el (js ''content'') = Some t\<close>
    and \<open>trim t \<noteq> []\<close>
  shows "extractTitle document = trim t"
proof -
  have "t \<noteq> []" using assms(4) by (rule trim_nonempty)
  then have "contentOrText el = t" using assms(3) by (simp add: contentOrText_def truthy_def)
  then show ?thesis using assms by (simp add: extractTitle_def)
qed

lemma extractFromHtml_fallback:
  assumes "parsePage env html baseUrl = Inr (document, None)"
  shows "\<exists>r. extractFromHtml env html baseUrl = Inr r \<and>
           ExtractedArticle.title r = extractTitle document \<and>
           ExtractedArticle.content r =
             processImagesInContent env
               (createFallbackContent (extractTitle document) (extractDescription document) baseUrl) baseUrl"
  using assms by (simp add: extractFromHtml_def chosenTitle_def chosenContent_def)


lemma fallback_for_video:
  assumes p: "parsePage env html (Some u) = Inr (document, None)"
    and u: "u \<noteq> []" "isExactDomain u (js ''youtube.com'') \<or> isExactDomain u (js ''youtu.be'')"
    and h1: \<open>document (js ''h1'') = None\<close>
    and og: \<open>document (js ''[property="og:title"]'') = Some el\<close>
    and c: \<open>getAttribute el (js ''content'') = Some t\<close>
    and t: \<open>trim t \<noteq> []\<close>
    and i: "list_all (\<lambda>(tag, src). downloadAndOptimizeImage env (resolveUrl env src (Some u)) = None)
              (imgMatchAll (createFallbackContent (trim t) (extractDescription document) (Some u)))"
  shows "\<exists>r. extractFromHtml env html (Some u) = Inr r \<and> ExtractedArticle.title r = trim t \<and>
           includesStr (ExtractedArticle.content r) youtubeNote"
proof -
  have ti: "extractTitle document = trim t" using h1 og c t by (rule extractTitle_og)
  from extractFromHtml_fallback [OF p] obtain r where
    r: "extractFromHtml env html (Some u) = Inr r" and
    rt: "ExtractedArticle.title r = extractTitle document" and
    rc: "ExtractedArticle.content r =
             processImagesInContent env
               (createFallbackContent (extractTitle document) (extractDescription document) (Some u)) (Some u)"
    by blast
  have "ExtractedArticle.content r = createFallbackContent (trim t) (extractDescription document) (Some u)"
    using rc processImagesInContent_no_download [OF i] by (simp add: ti)
  moreover have "includesStr (createFallbackContent (trim t) (extractDescription document) (Some u)) youtubeNote"
    using createFallbackContent_includes_note [of "trim t" "extractDescription document" "Some u"]
      contentNote_youtube [OF u] by simp
  ultimately show ?thesis using r rt ti by simp
qed

text \<open>
  C6. When Readability returns \<open>null\<close>, \<open>extractFromHtml\<close> does not raise: it returns a
  result whose title comes from the selector functions and whose content is the
  fallback document. For a YouTube URL the fallback document contains the video note.
  For a page without \<open>h1\<close> and with an \<open>og:title\<close> meta tag, fetched from a YouTube
  URL, the result has the title of the meta tag and a content that contains the video
  note, as long as no image of the fallback document is downloaded and rewritten (it
  has none unless the title, the description or the URL spell an image tag).
\<close>

theorem null_readability_gives_fallback:
  \<open>(\<forall>env html baseUrl document. parsePage env html baseUrl = Inr (document, None) \<longrightarrow>
      (\<exists>r. extractFromHtml env html baseUrl = Inr r \<and>
           ExtractedArticle.title r = extractTitle document \<and>
           ExtractedArticle.content r =
             processImagesInContent env
               (createFallbackContent (extractTitle document) (extractDescription document) baseUrl)
               baseUrl)) \<and>
   (\<forall>titleStr description u.
      u \<noteq> [] \<and> (isExactDomain u (js ''youtube.com'') \<or> isExactDomain u (js ''youtu.be'')) \<longrightarrow>
      includesStr (createFallbackContent titleStr description (Some u)) youtubeNote) \<and>
   (\<forall>env html u document el t.
      parsePage env html (Some u) = Inr (document, None) \<and>
      u \<noteq> [] \<and> (isExactDomain u (js ''youtube.com'') \<or> isExactDomain u (js ''youtu.be'')) \<and>
      document (js ''h1'') = None \<and>
      document (js ''[property="og:title"]'') = Some el \<and>
      getAttribute el (js ''content'') = Some t \<and> trim t \<noteq> [] \<and>
      list_all (\<lambda>(tag, src). downloadAndOptimizeImage env (resolveUrl env src (Some u)) = None)
        (imgMatchAll (createFallbackContent (trim t) (extractDescription document) (Some u))) \<longrightarrow>
      (\<exists>r. extractFromHtml env html (Some u) = Inr r \<and> ExtractedArticle.title r = trim t \<and>
           includesStr (ExtractedArticle.content r) youtubeNote))\<close>
proof (intro conjI allI)
  fix env html baseUrl document
  show "parsePage env html baseUrl = Inr (document, None) \<longrightarrow>
      (\<exists>r. extractFromHtml env html baseUrl = Inr r \<and>
           ExtractedArticle.title r = extractTitle document \<and>
           ExtractedArticle.content r =
             processImagesInContent env
               (createFallbackContent (extractTitle document) (extractDescription document) baseUrl)
               baseUrl)"
    using extractFromHtml_fallback [of env html baseUrl document] by blast
next
  fix titleStr description u
  show "u \<noteq> [] \<and> (isExactDomain u (js ''youtube.com'') \<or> isExactDomain u (js ''youtu.be'')) \<longrightarrow>
      includesStr (createFallbackContent titleStr description (Some u)) youtubeNote"
    using createFallbackContent_includes_note [of titleStr description "Some u"]
      contentNote_youtube [of u] by auto
next
  fix env html u document el t
  show \<open>parsePage env html (Some u) = Inr (document, None) \<and>
      u \<noteq> [] \<and> (isExactDomain u (js ''youtube.com'') \<or> isExactDomain u (js ''youtu.be'')) \<and>
      document (js ''h1'') = None \<and>
      document (js ''[property="og:title"]'') = Some el \<and>
      getAttribute el (js ''content'') = Some t \<and> trim t \<noteq> [] \<and>
      list_all (\<lambda>(tag, src). downloadAndOptimizeImage env (resolveUrl env src (Some u)) = None)
        (imgMatchAll (createFallbackContent (trim t) (extractDescription document) (Some u))) \<longrightarrow>
      (\<exists>r. extractFromHtml env html (Some u) = Inr r \<and> ExtractedArticle.title r = trim t \<and>
           includesStr (ExtractedArticle.content r) youtubeNote)\<close>
    using fallback_for_video [of env html u document el t] by blast
qed

lemma offline_download: "downloadAndOptimizeImage (offlineEnv parsed) imageUrl = None"
  by (simp add: downloadAndOptimizeImage_def offlineEnv_def)

lemma offline_no_rewrite:
  "list_all (\<lambda>(tag, src). downloadAndOptimizeImage (offlineEnv parsed) (resolveUrl (offlineEnv parsed) src b) = None) ms"
  by (induction ms) (auto simp: offline_download)

theorem null_readability_gives_fallback_witness:
  \<open>parsePage (offlineEnv (Inr (ogTitleDocument (js ''My video''), None)))
      (js ''<html><body></body></html>'') (Some (js ''https://www.youtube.com/watch?v=abc'')) =
      Inr (ogTitleDocument (js ''My video''), None) \<and>
    js ''https://www.youtube.com/watch?v=abc'' \<noteq> [] \<and>
    isExactDomain (js ''https://www.youtube.com/watch?v=abc'') (js ''youtube.com'') \<and>
    ogTitleDocument (js ''My video'') (js ''h1'') = None \<and>
    trim (js ''My video'') = js ''My video'' \<and>
    (\<exists>r. extractFromHtml (offlineEnv (Inr (ogTitleDocument (js ''My video''), None)))
           (js ''<html><body></body></html>'') (Some (js ''https://www.youtube.com/watch?v=abc'')) = Inr r \<and>
         ExtractedArticle.title r = js ''My video'' \<and>
         includesStr (ExtractedArticle.content r) youtubeNote)\<close>
proof -
  let ?doc = "ogTitleDocument (js ''My video'')"
  let ?env = "offlineEnv (Inr (?doc, None))"
  let ?u = "js ''https://www.youtube.com/watch?v=abc''"
  let ?el = "\<lparr>getAttribute = (\<lambda>name. if name = js ''content'' then Some (js ''My video'') else None),
              Element.textContent = []\<rparr>"
  have p: "parsePage ?env (js ''<html><body></body></html>'') (Some ?u) = Inr (?doc, None)"
    by (simp add: offlineEnv_def)
  have u: "?u \<noteq> []" by (simp add: js_def)
  have y: "isExactDomain ?u (js ''youtube.com'')" by code_simp
  have h1: "?doc (js ''h1'') = None" by (simp add: ogTitleDocument_def js_def)
  have og: \<open>?doc (js ''[property="og:title"]'') = Some ?el\<close> by (simp add: ogTitleDocument_def)
  have c: "getAttribute ?el (js ''content'') = Some (js ''My video'')" by simp
  have t: "trim (js ''My video'') = js ''My video''"
    by (simp add: trim_def js_def isWhiteSpace_def)
  have tn: "trim (js ''My video'') \<noteq> []" unfolding t by (simp add: js_def)
  have i: "list_all (\<lambda>(tag, src). downloadAndOptimizeImage ?env (resolveUrl ?env src (Some ?u)) = None)
        (imgMatchAll (createFallbackContent (trim (js ''My video'')) (extractDescription ?doc) (Some ?u)))"
    by (rule offline_no_rewrite)
  have d: "isExactDomain ?u (js ''youtube.com'') \<or> isExactDomain ?u (js ''youtu.be'')"
    using y by (rule disjI1)
  note th = null_readability_gives_fallback [THEN conjunct2, THEN conjunct2, rule_format,
      of ?env "js ''<html><body></body></html>''" ?u ?doc ?el "js ''My video''"]
  have "\<exists>r. extractFromHtml ?env (js ''<html><body></body></html>'') (Some ?u) = Inr r \<and>
          ExtractedArticle.title r = trim (js ''My video'') \<and>
          includesStr (ExtractedArticle.content r) youtubeNote"
    using p u d h1 og c tn i by (intro th conjI) assumption+
  then have e: "\<exists>r. extractFromHtml ?env (js ''<html><body></body></html>'') (Some ?u) = Inr r \<and>
          ExtractedArticle.title r = js ''My video'' \<and>
          includesStr (ExtractedArticle.content r) youtubeNote"
    by (simp only: t)
  show ?thesis using p u y h1 t e by (intro conjI) assumption+
qed

section \<open>File names of cached images\<close>


















end
